theory Spec2Isabelle
  imports Complex_Main
begin

section \<open>Data model of tightrope.js and lightning.js\<close>

text \<open>
  The process state of one node is the \<^verbatim>\<open>Tightrope\<close> instance, the \<^verbatim>\<open>Lightning\<close> instance it
  owns and the module-level \<^verbatim>\<open>transactions\<close> audit log. Every handler is a function from the
  state to the next state. Keys, channel ids and invoices are strings; a socket is a handle
  (a number); token amounts and millisecond clock readings are integers, and quantities
  that \<^verbatim>\<open>BigNumber\<close> computes exactly (products with the fractional \<^verbatim>\<open>balancePoint\<close>) are rationals.
  Each handler is modelled as running to completion with one reading \<open>now\<close> of \<^verbatim>\<open>Date.now()\<close>.
\<close>

text \<open>An entry of \<^verbatim>\<open>this.channels\<close>, as \<^verbatim>\<open>_refreshChannelList\<close> builds it (the fields the handlers read).\<close>

record channel =
  id_c :: string
  localPublicKey :: string
  remotePublicKey :: string
  localBalance :: int
  remoteBalance :: int
  capacity :: int
  isActive :: bool

text \<open>A channel as \<^verbatim>\<open>lnService.getChannels\<close> reports it.\<close>

record lnd_channel =
  lnd_id :: string
  partner_public_key :: string
  local_balance :: int
  remote_balance :: int
  lnd_capacity :: int
  is_active :: bool

text \<open>An entry of \<^verbatim>\<open>this.channelOwners\<close>: \<^verbatim>\<open>{ channelId, remotePeer, remoteLightning }\<close>.\<close>

record owner =
  owner_channelId :: string
  remotePeer :: string
  remoteLightning :: string

text \<open>An entry of \<^verbatim>\<open>this.blockedPending\<close>: \<^verbatim>\<open>{ id, until }\<close>.\<close>

record block =
  id_b :: string
  until :: int

text \<open>
  An audit entry of the \<^verbatim>\<open>transactions\<close> module. \<open>state\<close> is one of the strings
  \<^verbatim>\<open>'pending'\<close>, \<^verbatim>\<open>'complete'\<close>, \<^verbatim>\<open>'failed'\<close>.
\<close>

record audit =
  tx_paidTo :: string
  tx_paidBy :: string
  tx_channelId :: string
  amount :: int
  tx_invoice :: string
  state :: string
  tx_timestamp :: int

text \<open>The payload of a \<^verbatim>\<open>payInvoice\<close> message, as \<^verbatim>\<open>_onRequestRebalance\<close> builds it.\<close>

record payInvoice_msg =
  invoice :: string
  tokens :: int
  channelId :: string
  paidTo :: string
  paidBy :: string

text \<open>
  The reason texts. The two fixed texts are strings; the two limit texts are template
  strings over numbers, kept here with their numbers as arguments:
  \<open>TooManyTransactions n m\<close> is \<^verbatim>\<open>`${n} transactions in last ${limitsPeriod}. Limit is ${m}`\<close>,
  \<open>TooManyTokens t m\<close> is \<^verbatim>\<open>`${t} tokens sent in last ${recent}ms. Limit is ${m}`\<close>.
\<close>

datatype reason_text = Reason string | TooManyTransactions int int | TooManyTokens int int

text \<open>What \<^verbatim>\<open>_denyPaymentReason\<close> returns: \<^verbatim>\<open>{ allow, reason?, retryAt? }\<close>.\<close>

record decision =
  d_allow :: bool
  d_reason :: "reason_text option"
  d_retryAt :: "int option"

text \<open>
  What \<^verbatim>\<open>Lightning.payInvoice\<close> returns; a field that the returned object does not have is
  \<open>None\<close>, and so is a field that is \<^verbatim>\<open>null\<close>.
\<close>

record pay_result =
  allow :: "bool option"
  reason :: "reason_text option"
  retryAt :: "int option"
  paymentId :: "string option"
  confirmed :: bool
  confirmedAt :: "string option"

text \<open>
  The payloads \<^verbatim>\<open>_onMessage\<close> dispatches on. A \<^verbatim>\<open>paymentResult\<close> is
  \<^verbatim>\<open>{ ...msg, ...result, type: 'paymentResult' }\<close>: the request's fields and the result's.
\<close>

datatype message =
    Hello string string
  | PayInvoice payInvoice_msg
  | PaymentResult payInvoice_msg pay_result
  | Unknown string

text \<open>The envelope \<^verbatim>\<open>{ message, timestamp, signature }\<close> that \<^verbatim>\<open>_sendMessage\<close> writes.\<close>

record wire =
  message :: message
  timestamp :: int
  signature :: string

text \<open>
  What \<^verbatim>\<open>JSON.parse\<close> gives for an inbound frame is not bound to that shape. The timestamp
  is read twice, by \<^verbatim>\<open>signMessage\<close> as it is and by \<^verbatim>\<open>now - obj.timestamp\<close> as a number:
  \<open>Num t\<close> is a timestamp that converts to the number \<open>t\<close>, in whole milliseconds;
  \<open>NaN_value v\<close> is one that converts to \<^verbatim>\<open>NaN\<close>, the absent field (\<^verbatim>\<open>undefined\<close>), a string
  that is no numeral or an object, with \<open>v\<close> the text of the value. (A fraction of a
  millisecond changes nothing below, and an infinite timestamp gives an infinite age, too
  old like any large one.) The signature is \<open>None\<close> when the field is absent or not a
  string.
\<close>

datatype tsval = Num int | NaN_value string

record frame =
  rx_message :: message
  rx_timestamp :: tsval
  rx_signature :: "string option"

text \<open>
  The node. \<open>written\<close> lists the \<^verbatim>\<open>socket.write\<close> calls made so far and \<open>payCalls\<close> the
  calls of \<^verbatim>\<open>lnService.pay\<close> (request, outgoing channel): the two effects on the outside.
\<close>

record node =
  secret :: string
  myPublicKey :: string
  activeConnections :: "(string \<times> nat) list"
  channelOwners :: "owner list"
  publicKey :: string
  alias_ln :: string
  channels :: "channel list"
  watchList :: "string list"
  blockedPending :: "block list"
  transactions :: "audit list"
  written :: "(nat \<times> wire) list"
  payCalls :: "(string \<times> string) list"

text \<open>What \<^verbatim>\<open>lnService.decodePaymentRequest\<close> returns (the fields read).\<close>

record decoded =
  dec_tokens :: int
  dec_destination :: string

text \<open>What \<^verbatim>\<open>lnService.pay\<close> does: it throws, or returns nothing, or returns a payment.\<close>

record payment =
  pay_id :: "string option"
  is_confirmed :: bool
  confirmed_at :: "string option"

datatype pay_outcome = Pay_throws | Pay_null | Pay_returns payment

text \<open>
  The collaborators that are not in the source files, as parameters: the signing function
  of \<^verbatim>\<open>./util/sign\<close>, the answers of the lightning node (\<open>None\<close> is a thrown exception), and
  the settings of \<^verbatim>\<open>./util/tightrope-settings\<close> with durations already in milliseconds
  (\<^verbatim>\<open>timeToMilliseconds\<close> applied). A fractional setting is given by the decimal it prints
  as, which is the value \<^verbatim>\<open>BigNumber\<close> takes from it; as a JavaScript number it is the double
  nearest to that decimal.
\<close>

record env =
  signMessage :: "string \<Rightarrow> tsval \<Rightarrow> string \<Rightarrow> message \<Rightarrow> string"
  getChannels :: "lnd_channel list option"
  decodePaymentRequest :: "string \<Rightarrow> decoded option"
  pay :: "string \<Rightarrow> string \<Rightarrow> pay_outcome"
  createInvoice :: "int \<Rightarrow> string option"
  balancePoint :: "string \<Rightarrow> rat"
  deadzone :: "string \<Rightarrow> rat"
  maxTransactionSize :: "string \<Rightarrow> rat"
  minTimeBetweenPayments :: "string \<Rightarrow> int"
  limitsPeriod :: int
  useRollingLimitsPeriod :: bool
  maxTransactionsPerPeriod :: int
  maxAmountPerPeriod :: int

section \<open>The mesh: sessions and sending (class Tightrope)\<close>

text \<open>\<^verbatim>\<open>Lightning.unwatchChannel\<close>\<close>

definition unwatchChannel :: "string \<Rightarrow> node \<Rightarrow> node" where
  "unwatchChannel cid s = s\<lparr>watchList := filter (\<lambda>c. c \<noteq> cid) (watchList s)\<rparr>"

text \<open>\<^verbatim>\<open>Lightning.watchChannel\<close>\<close>

definition watchChannel :: "string \<Rightarrow> node \<Rightarrow> node" where
  "watchChannel cid s =
     (let s1 = unwatchChannel cid s in s1\<lparr>watchList := watchList s1 @ [cid]\<rparr>)"

text \<open>\<^verbatim>\<open>Tightrope._findConnection\<close>: the socket of the first session with that key, or null.\<close>

definition findConnection :: "node \<Rightarrow> string \<Rightarrow> nat option" where
  "findConnection s key =
     (case find (\<lambda>c. fst c = key) (activeConnections s) of
        None \<Rightarrow> None
      | Some result \<Rightarrow> Some (snd result))"

text \<open>\<^verbatim>\<open>Tightrope._sendMessage\<close>: no session, no write.\<close>

definition sendMessage :: "env \<Rightarrow> int \<Rightarrow> string \<Rightarrow> message \<Rightarrow> node \<Rightarrow> node" where
  "sendMessage E now to msg s =
     (case findConnection s to of
        None \<Rightarrow> s
      | Some sock \<Rightarrow>
          s\<lparr>written := written s @
            [(sock, \<lparr>message = msg, timestamp = now,
                     signature = signMessage E (secret s) (Num now) (myPublicKey s) msg\<rparr>)]\<rparr>)"

text \<open>
  \<^verbatim>\<open>Tightrope._removeActiveConnection\<close>: drop the session, unwatch every channel an ownership
  record gives to the peer (the \<^verbatim>\<open>forEach\<close>), then drop those records.
\<close>

definition unwatchOwned :: "string \<Rightarrow> node \<Rightarrow> owner \<Rightarrow> node" where
  "unwatchOwned key s c =
     (if remotePeer c = key then unwatchChannel (owner_channelId c) s else s)"

definition removeActiveConnection :: "string \<Rightarrow> node \<Rightarrow> node" where
  "removeActiveConnection key s =
     (let s1 = s\<lparr>activeConnections :=
                  filter (\<lambda>c. fst c \<noteq> key) (activeConnections s)\<rparr>;
          s2 = foldl (unwatchOwned key) s1 (channelOwners s1)
      in s2\<lparr>channelOwners :=
              filter (\<lambda>owner. remotePeer owner \<noteq> key) (channelOwners s2)\<rparr>)"

text \<open>\<^verbatim>\<open>Tightrope._addActiveConnection\<close>\<close>

definition addActiveConnection :: "string \<Rightarrow> nat \<Rightarrow> node \<Rightarrow> node" where
  "addActiveConnection key sock s =
     (let s1 = removeActiveConnection key s
      in s1\<lparr>activeConnections := activeConnections s1 @ [(key, sock)]\<rparr>)"

text \<open>
  \<^verbatim>\<open>Tightrope._onOpenConnection\<close>: register the session, then greet the peer. The handlers it
  installs on the socket are the three that follow.
\<close>

definition onOpenConnection :: "env \<Rightarrow> int \<Rightarrow> string \<Rightarrow> nat \<Rightarrow> node \<Rightarrow> node" where
  "onOpenConnection E now key sock s =
     sendMessage E now key (Hello (publicKey s) (alias_ln s))
       (addActiveConnection key sock s)"

text \<open>\<^verbatim>\<open>socket.on('close', ...)\<close>: \<^verbatim>\<open>Tightrope._onCloseConnection\<close>.\<close>

definition onCloseConnection :: "string \<Rightarrow> node \<Rightarrow> node" where
  "onCloseConnection peer s = removeActiveConnection peer s"

text \<open>\<^verbatim>\<open>socket.on('error', ...)\<close>: the handler logs the error message and does nothing else.\<close>

definition onSocketError :: "string \<Rightarrow> string \<Rightarrow> node \<Rightarrow> node" where
  "onSocketError peer err s = s"

text \<open>
  The end of a session. The transport closes a socket that has failed, so a session ends
  with the \<^verbatim>\<open>close\<close> event alone or with an \<^verbatim>\<open>error\<close> event and the \<^verbatim>\<open>close\<close> event after it;
  the two listeners of \<^verbatim>\<open>_onOpenConnection\<close> run in that order.
\<close>

datatype ending = Closes | Fails string

definition sessionEnds :: "string \<Rightarrow> ending \<Rightarrow> node \<Rightarrow> node" where
  "sessionEnds peer how s =
     (case how of
        Closes \<Rightarrow> onCloseConnection peer s
      | Fails err \<Rightarrow> onCloseConnection peer (onSocketError peer err s))"

section \<open>The audit log (module transactions)\<close>

text \<open>
  Modelled from the spec: the module \<^verbatim>\<open>./transactions\<close> is not among the source files. Its
  contract is \<^verbatim>\<open>add(entry)\<close>, an append, and \<^verbatim>\<open>filter({since, paidBy})\<close>, the entries with
  that payer and a timestamp of at least \<open>since\<close>. An entry is stamped with the time it is
  added at.
\<close>

definition transactions_add :: "int \<Rightarrow> audit \<Rightarrow> node \<Rightarrow> node" where
  "transactions_add now entry s =
     s\<lparr>transactions := transactions s @ [entry\<lparr>tx_timestamp := now\<rparr>]\<rparr>"

definition transactions_filter :: "int \<Rightarrow> string \<Rightarrow> audit list \<Rightarrow> audit list" where
  "transactions_filter since payer entries =
     filter (\<lambda>t. tx_paidBy t = payer \<and> since \<le> tx_timestamp t) entries"

section \<open>The lightning side (class Lightning)\<close>

text \<open>
  \<^verbatim>\<open>Lightning._refreshChannelList\<close>: the view is replaced whole; a failed call leaves it
  empty (and so does a missing \<^verbatim>\<open>lnd\<close> handle, the same branch here).
\<close>

definition refreshChannelList :: "env \<Rightarrow> node \<Rightarrow> node" where
  "refreshChannelList E s =
     (case getChannels E of
        None \<Rightarrow> s\<lparr>channels := []\<rparr>
      | Some channelList \<Rightarrow>
          s\<lparr>channels := map (\<lambda>c.
              \<lparr>id_c = lnd_id c, localPublicKey = publicKey s,
               remotePublicKey = partner_public_key c,
               localBalance = local_balance c, remoteBalance = remote_balance c,
               capacity = lnd_capacity c, isActive = is_active c\<rparr>) channelList\<rparr>)"

text \<open>\<^verbatim>\<open>Lightning.findChannelsFromPubKey\<close>\<close>

definition findChannelsFromPubKey :: "env \<Rightarrow> string \<Rightarrow> node \<Rightarrow> channel list \<times> node" where
  "findChannelsFromPubKey E lnPublicKey s =
     (let s1 = refreshChannelList E s
      in (filter (\<lambda>c. remotePublicKey c = lnPublicKey) (channels s1), s1))"

text \<open>\<^verbatim>\<open>Lightning.findChannelFromId\<close>\<close>

definition findChannelFromId :: "env \<Rightarrow> string \<Rightarrow> node \<Rightarrow> channel option \<times> node" where
  "findChannelFromId E cid s =
     (let s1 = refreshChannelList E s
      in (find (\<lambda>c. id_c c = cid) (channels s1), s1))"

text \<open>
  \<^verbatim>\<open>Lightning._denyPaymentReason\<close>. \<^verbatim>\<open>Math.floor(now / period) * period\<close> is integer division
  for a period that is not zero.
\<close>

definition denyPaymentReason :: "env \<Rightarrow> int \<Rightarrow> string \<Rightarrow> int \<Rightarrow> node \<Rightarrow> decision" where
  "denyPaymentReason E now cid amt s =
     (let period = limitsPeriod E;
          since = (if useRollingLimitsPeriod E then now - period
                   else (now div period) * period);
          recent = transactions_filter since (publicKey s) (transactions s);
          maxTransactions = maxTransactionsPerPeriod E
      in if int (length recent) \<ge> maxTransactions then
           \<lparr>d_allow = False,
            d_reason = Some (TooManyTransactions (int (length recent)) maxTransactions),
            d_retryAt = Some (since + period + 1)\<rparr>
         else
           (let maxTotalAmount = maxAmountPerPeriod E;
                sumOfTransactions = foldl (\<lambda>total t. total + amount t) 0 recent
            in if sumOfTransactions + amt > maxTotalAmount then
                 \<lparr>d_allow = False,
                  d_reason = Some (TooManyTokens (sumOfTransactions + amt) maxTotalAmount),
                  d_retryAt = Some (since + period + 1)\<rparr>
               else \<lparr>d_allow = True, d_reason = None, d_retryAt = None\<rparr>))"

text \<open>
  \<^verbatim>\<open>Lightning._shouldPayInvoice\<close>. The result \<open>None\<close> is the bare \<^verbatim>\<open>false\<close> the function
  returns after its \<^verbatim>\<open>catch\<close>, when decoding the invoice has thrown.
\<close>

definition invalid_request :: decision where
  "invalid_request = \<lparr>d_allow = False, d_reason = Some (Reason ''invalid request''), d_retryAt = None\<rparr>"

definition shouldPayInvoice :: "env \<Rightarrow> int \<Rightarrow> payInvoice_msg \<Rightarrow> node \<Rightarrow> decision option \<times> node" where
  "shouldPayInvoice E now msg s =
     (case decodePaymentRequest E (invoice msg) of
        None \<Rightarrow> (None, s)
      | Some details \<Rightarrow>
          if dec_tokens details \<noteq> tokens msg then (Some invalid_request, s)
          else if dec_destination details \<noteq> paidTo msg then (Some invalid_request, s)
          else
            (case findChannelFromId E (channelId msg) s of
               (None, s1) \<Rightarrow> (Some invalid_request, s1)
             | (Some channelInfo, s1) \<Rightarrow>
                 if remotePublicKey channelInfo \<noteq> paidTo msg then (Some invalid_request, s1)
                 else (Some (denyPaymentReason E now (channelId msg) (tokens msg) s1), s1)))"

text \<open>
  \<^verbatim>\<open>Lightning.payInvoice\<close>. With \<^verbatim>\<open>shouldPay\<close> the bare \<^verbatim>\<open>false\<close>, \<^verbatim>\<open>!shouldPay.allow\<close> holds
  and \<^verbatim>\<open>{ ...shouldPay, paymentId: null, confirmed: false, confirmedAt: null }\<close> has no other
  field. The last \<^verbatim>\<open>return\<close> of the function is \<open>payment_failed\<close>.
\<close>

definition payment_failed :: pay_result where
  "payment_failed =
     \<lparr>allow = None, reason = Some (Reason ''payment failed''), retryAt = None,
      paymentId = None, confirmed = False, confirmedAt = None\<rparr>"

definition payInvoice :: "env \<Rightarrow> int \<Rightarrow> payInvoice_msg \<Rightarrow> node \<Rightarrow> pay_result \<times> node" where
  "payInvoice E now msg s =
     (case shouldPayInvoice E now msg s of
        (None, s1) \<Rightarrow>
          (\<lparr>allow = None, reason = None, retryAt = None,
            paymentId = None, confirmed = False, confirmedAt = None\<rparr>, s1)
      | (Some shouldPay, s1) \<Rightarrow>
          if \<not> d_allow shouldPay then
            (\<lparr>allow = Some (d_allow shouldPay), reason = d_reason shouldPay,
              retryAt = d_retryAt shouldPay,
              paymentId = None, confirmed = False, confirmedAt = None\<rparr>, s1)
          else
            (let s2 = s1\<lparr>payCalls := payCalls s1 @ [(invoice msg, channelId msg)]\<rparr>
             in case pay E (invoice msg) (channelId msg) of
                  Pay_throws \<Rightarrow> (payment_failed, s2)
                | Pay_null \<Rightarrow> (payment_failed, s2)
                | Pay_returns p \<Rightarrow>
                    if is_confirmed p then
                      (\<lparr>allow = Some (d_allow shouldPay), reason = d_reason shouldPay,
                        retryAt = d_retryAt shouldPay,
                        paymentId = pay_id p, confirmed = is_confirmed p,
                        confirmedAt = confirmed_at p\<rparr>, s2)
                    else (payment_failed, s2)))"

text \<open>\<^verbatim>\<open>Lightning._rateLimitRebalance\<close>: the flag is true when the channel is rate limited.\<close>

definition rateLimitRebalance :: "env \<Rightarrow> int \<Rightarrow> channel \<Rightarrow> node \<Rightarrow> bool \<times> node" where
  "rateLimitRebalance E now ch s =
     (let s1 = s\<lparr>blockedPending := filter (\<lambda>c. until c > now) (blockedPending s)\<rparr>
      in case find (\<lambda>c. id_b c = id_c ch) (blockedPending s1) of
           Some blocked \<Rightarrow> (True, s1)
         | None \<Rightarrow>
             (False, s1\<lparr>blockedPending := blockedPending s1 @
                [\<lparr>id_b = id_c ch, until = now + minTimeBetweenPayments E (id_c ch)\<rparr>]\<rparr>))"

text \<open>\<^verbatim>\<open>Lightning.confirmPayment\<close>; \<^verbatim>\<open>if (result.retryAt)\<close> holds for a number that is not zero.\<close>

definition confirmPayment :: "payInvoice_msg \<Rightarrow> pay_result \<Rightarrow> node \<Rightarrow> node" where
  "confirmPayment msg result s =
     (let s1 = s\<lparr>blockedPending :=
                  filter (\<lambda>c. id_b c \<noteq> channelId msg) (blockedPending s)\<rparr>
      in if \<not> confirmed result then
           (case retryAt result of
              None \<Rightarrow> s1
            | Some r \<Rightarrow>
                if r \<noteq> 0 then
                  s1\<lparr>blockedPending := blockedPending s1 @ [\<lparr>id_b = channelId msg, until = r\<rparr>]\<rparr>
                else s1)
         else s1)"

section \<open>The handlers of class Tightrope\<close>

text \<open>
  \<^verbatim>\<open>Tightrope._onHello\<close>: \<open>bindChannel\<close> is the body of the \<^verbatim>\<open>forEach\<close> over the channels
  shared with the greeting peer.
\<close>

definition bindChannel :: "string \<Rightarrow> string \<Rightarrow> node \<Rightarrow> channel \<Rightarrow> node" where
  "bindChannel peer lnKey s c =
     watchChannel (id_c c)
       (s\<lparr>channelOwners :=
            filter (\<lambda>owner. owner_channelId owner \<noteq> id_c c) (channelOwners s) @
            [\<lparr>owner_channelId = id_c c, remotePeer = peer, remoteLightning = lnKey\<rparr>]\<rparr>)"

definition onHello :: "env \<Rightarrow> string \<Rightarrow> string \<Rightarrow> string \<Rightarrow> node \<Rightarrow> node" where
  "onHello E peer lnKey lnAlias s =
     (case findChannelsFromPubKey E lnKey s of
        (shared, s1) \<Rightarrow> foldl (bindChannel peer lnKey) s1 shared)"

text \<open>\<^verbatim>\<open>Tightrope._onPayInvoice\<close>: pay, then send the result back. Nothing is added to the audit log.\<close>

definition onPayInvoice :: "env \<Rightarrow> int \<Rightarrow> string \<Rightarrow> payInvoice_msg \<Rightarrow> node \<Rightarrow> node" where
  "onPayInvoice E now peer msg s =
     (case payInvoice E now msg s of
        (result, s1) \<Rightarrow> sendMessage E now peer (PaymentResult msg result) s1)"

text \<open>
  \<^verbatim>\<open>Tightrope._onPaymentResult\<close>: the audit entry is
  \<^verbatim>\<open>{ ...msg, amount: +msg.tokens, state: msg.confirmed ? 'complete' : 'failed' }\<close>.
\<close>

definition onPaymentResult :: "int \<Rightarrow> string \<Rightarrow> payInvoice_msg \<Rightarrow> pay_result \<Rightarrow> node \<Rightarrow> node" where
  "onPaymentResult now peer msg result s =
     confirmPayment msg result
       (transactions_add now
          \<lparr>tx_paidTo = paidTo msg, tx_paidBy = paidBy msg, tx_channelId = channelId msg,
           amount = tokens msg, tx_invoice = invoice msg,
           state = (if confirmed result then ''complete'' else ''failed''),
           tx_timestamp = now\<rparr> s)"

text \<open>\<^verbatim>\<open>Tightrope._onRequestRebalance\<close>, the listener of \<^verbatim>\<open>requestRebalance\<close>.\<close>

definition onRequestRebalance :: "env \<Rightarrow> int \<Rightarrow> channel \<Rightarrow> string \<Rightarrow> int \<Rightarrow> node \<Rightarrow> node" where
  "onRequestRebalance E now ch request tok s =
     (case find (\<lambda>c. owner_channelId c = id_c ch) (channelOwners s) of
        None \<Rightarrow> s
      | Some ow \<Rightarrow>
          sendMessage E now (remotePeer ow)
            (PayInvoice \<lparr>invoice = request, tokens = tok, channelId = id_c ch,
                         paidTo = localPublicKey ch, paidBy = remotePublicKey ch\<rparr>)
            (transactions_add now
               \<lparr>tx_paidTo = localPublicKey ch, tx_paidBy = remotePublicKey ch,
                tx_channelId = id_c ch, amount = tok, tx_invoice = request,
                state = ''pending'', tx_timestamp = now\<rparr> s))"

text \<open>
  \<^verbatim>\<open>Tightrope._onMessage\<close>. The data is \<open>None\<close> when \<^verbatim>\<open>JSON.parse\<close> throws or gives no
  object (caught and logged). \<open>dispatch\<close> is the \<^verbatim>\<open>switch\<close> on the type of the payload;
  \<open>Unknown\<close> is a payload of another type or none. The age of a frame is
  \<^verbatim>\<open>Math.abs(now - obj.timestamp)\<close>: for a timestamp that is not a number it is \<^verbatim>\<open>NaN\<close>, and
  \<^verbatim>\<open>age > 5000\<close> is false.
\<close>

definition dispatch :: "env \<Rightarrow> int \<Rightarrow> string \<Rightarrow> message \<Rightarrow> node \<Rightarrow> node" where
  "dispatch E now peer m s =
     (case m of
        Hello lnKey lnAlias \<Rightarrow> onHello E peer lnKey lnAlias s
      | PayInvoice msg \<Rightarrow> onPayInvoice E now peer msg s
      | PaymentResult msg result \<Rightarrow> onPaymentResult now peer msg result s
      | Unknown ty \<Rightarrow> s)"

definition tooOld :: "int \<Rightarrow> tsval \<Rightarrow> bool" where
  "tooOld now ts = (case ts of Num t \<Rightarrow> \<bar>now - t\<bar> > 5000 | NaN_value v \<Rightarrow> False)"

definition onMessage :: "env \<Rightarrow> int \<Rightarrow> string \<Rightarrow> frame option \<Rightarrow> node \<Rightarrow> node" where
  "onMessage E now peer data s =
     (case data of
        None \<Rightarrow> s
      | Some obj \<Rightarrow>
          if Some (signMessage E (secret s) (rx_timestamp obj) peer (rx_message obj))
               \<noteq> rx_signature obj
          then s
          else if tooOld now (rx_timestamp obj) then s
          else dispatch E now peer (rx_message obj) s)"

section \<open>The rebalance monitor (class Lightning)\<close>

text \<open>
  Two operations of the \<^verbatim>\<open>bignumber.js\<close> library, with its default configuration
  (\<^verbatim>\<open>ROUNDING_MODE\<close> 4, \<^verbatim>\<open>ROUND_HALF_UP\<close>), which the source does not change:
  \<^verbatim>\<open>x.toFixed(0)\<close> rounds to the nearest integer and a tie away from zero;
  \<^verbatim>\<open>x.isPositive()\<close> tests the sign (\<^verbatim>\<open>this.s > 0\<close>), and the zero that these sums, products
  and differences give carries the positive sign.
\<close>

definition toFixed0 :: "rat \<Rightarrow> int" where
  "toFixed0 x = (if 0 \<le> x then \<lfloor>x + 1 / 2\<rfloor> else - \<lfloor>- x + 1 / 2\<rfloor>)"

definition isPositive :: "rat \<Rightarrow> bool" where
  "isPositive x = (0 \<le> x)"

text \<open>
  JavaScript numbers are doubles. \<open>double x\<close> is the double nearest to the fraction \<open>x\<close>,
  itself a fraction: 53 significant bits, a tie going to the even significand. \<open>bits\<close>
  is the length of a positive integer in bits and \<open>exponent2 x\<close> the exponent of the
  power of two at or below \<open>x\<close>. The exponent has no bounds here: the values met are far
  from the largest double, and a difference of two doubles too small for a normal double
  is a double as it is.
\<close>

function bits :: "int \<Rightarrow> int" where
  "bits n = (if n \<le> 0 then 0 else bits (n div 2) + 1)"
  by pat_completeness auto
termination
  by (relation "measure nat") auto

declare bits.simps [simp del]

definition pow2 :: "int \<Rightarrow> rat" where
  "pow2 e = (if 0 \<le> e then 2 ^ nat e else 1 / 2 ^ nat (- e))"

definition exponent2 :: "rat \<Rightarrow> int" where
  "exponent2 x =
     (let (p, q) = quotient_of \<bar>x\<bar>;
          d = bits p - bits q
      in if pow2 d \<le> \<bar>x\<bar> then d else d - 1)"

definition roundHalfEven :: "rat \<Rightarrow> int" where
  "roundHalfEven q =
     (let f = \<lfloor>q\<rfloor>; r = q - of_int f
      in if r < 1 / 2 then f else if 1 / 2 < r then f + 1 else if even f then f else f + 1)"

definition double :: "rat \<Rightarrow> rat" where
  "double x =
     (if x = 0 then 0
      else (let u = pow2 (exponent2 x - 52)
            in of_int (roundHalfEven (x / u)) * u))"

text \<open>
  \<^verbatim>\<open>Math.min(1, Math.max(0, balancePoint - deadzone))\<close>, a subtraction of two numbers.
\<close>

definition rebalanceThreshold :: "env \<Rightarrow> string \<Rightarrow> rat" where
  "rebalanceThreshold E cid =
     min 1 (max 0 (double (double (balancePoint E cid) - double (deadzone E cid))))"

text \<open>
  \<^verbatim>\<open>channel.localBalance.div(channel.capacity)\<close>: the quotient of two \<^verbatim>\<open>BigNumber\<close>s, rounded
  half up to 20 decimal places (\<^verbatim>\<open>DECIMAL_PLACES\<close>).
\<close>

definition div20 :: "int \<Rightarrow> int \<Rightarrow> rat" where
  "div20 a b = of_int (toFixed0 (of_int a / of_int b * 10 ^ 20)) / 10 ^ 20"

text \<open>
  \<^verbatim>\<open>local < rebalanceThreshold\<close>: the comparison of a \<^verbatim>\<open>BigNumber\<close> with a number converts
  the \<^verbatim>\<open>BigNumber\<close> to a number (through the decimal string its \<^verbatim>\<open>valueOf\<close> gives). With a
  capacity of zero the quotient is \<^verbatim>\<open>NaN\<close> or an infinity of the sign of the balance, below
  the threshold only when negative.
\<close>

definition belowThreshold :: "channel \<Rightarrow> rat \<Rightarrow> bool" where
  "belowThreshold ch threshold =
     (if capacity ch = 0 then localBalance ch < 0
      else double (div20 (localBalance ch) (capacity ch)) < threshold)"

text \<open>
  \<^verbatim>\<open>Lightning._rebalanceChannel\<close>: \<^verbatim>\<open>createInvoice\<close> may throw (caught and logged); the
  \<^verbatim>\<open>emit\<close> runs its listener \<^verbatim>\<open>_onRequestRebalance\<close> at once.
\<close>

definition rebalanceChannel :: "env \<Rightarrow> int \<Rightarrow> channel \<Rightarrow> rat \<Rightarrow> node \<Rightarrow> node" where
  "rebalanceChannel E now ch invoiceAmount s =
     (case rateLimitRebalance E now ch s of
        (True, s1) \<Rightarrow> s1
      | (False, s1) \<Rightarrow>
          (let tok = toFixed0 invoiceAmount
           in case createInvoice E tok of
                None \<Rightarrow> s1
              | Some request \<Rightarrow> onRequestRebalance E now ch request tok s1))"

text \<open>
  The amount \<^verbatim>\<open>_onConsiderChannelRebalance\<close> asks for:
  \<^verbatim>\<open>BigNumber.min(targetBalance.minus(localBalance), maxTransactionSize)\<close>.
\<close>

definition requestAmount :: "env \<Rightarrow> string \<Rightarrow> channel \<Rightarrow> rat" where
  "requestAmount E cid ch =
     (let targetBalance = of_int (localBalance ch + remoteBalance ch) * balancePoint E cid;
          invoiceAmount = targetBalance - of_int (localBalance ch)
      in min invoiceAmount (maxTransactionSize E cid))"

text \<open>
  \<^verbatim>\<open>Lightning._onConsiderChannelRebalance\<close>: the flag tells \<^verbatim>\<open>_onPollChannels\<close> whether the
  channel stays on the watch list.
\<close>

definition onConsiderChannelRebalance :: "env \<Rightarrow> int \<Rightarrow> string \<Rightarrow> node \<Rightarrow> bool \<times> node" where
  "onConsiderChannelRebalance E now cid s =
     (case find (\<lambda>c. id_c c = cid) (channels s) of
        None \<Rightarrow> (False, s)
      | Some ch \<Rightarrow>
          if isActive ch then
            (if belowThreshold ch (rebalanceThreshold E cid) then
               (let amt = requestAmount E cid ch
                in if isPositive amt then (True, rebalanceChannel E now ch amt s)
                   else (True, s))
             else (True, s))
          else (True, s))"

section \<open>A cluster of two nodes\<close>

text \<open>
  Node A (lightning key \<open>lnA\<close>, mesh key \<open>meshA\<close>) and node B share the channel \<open>C1\<close> of
  capacity 1001, of which A holds 100 and B holds 901. The balance point is 1/2 and the
  dead zone 1/20. Invoice \<open>inv1\<close> decodes to 401 tokens for \<open>lnA\<close>, invoice \<open>inv2\<close> to 401
  tokens for another node, and any other invoice fails to decode.
\<close>

definition sign0 :: "string \<Rightarrow> tsval \<Rightarrow> string \<Rightarrow> message \<Rightarrow> string" where
  "sign0 sec ts key m =
     sec @ ''/'' @ key @ ''/'' @
     (case m of Hello a b \<Rightarrow> ''hello'' | PayInvoice a \<Rightarrow> ''payInvoice''
        | PaymentResult a b \<Rightarrow> ''paymentResult'' | Unknown ty \<Rightarrow> ty) @
     (case ts of Num t \<Rightarrow> [] | NaN_value v \<Rightarrow> ''/'' @ v)"

definition decode0 :: "string \<Rightarrow> decoded option" where
  "decode0 request =
     (if request = ''inv1'' then Some \<lparr>dec_tokens = 401, dec_destination = ''lnA''\<rparr>
      else if request = ''inv2'' then Some \<lparr>dec_tokens = 401, dec_destination = ''lnY''\<rparr>
      else None)"

definition pay0 :: "string \<Rightarrow> string \<Rightarrow> pay_outcome" where
  "pay0 request cid =
     Pay_returns \<lparr>pay_id = Some ''p1'', is_confirmed = True, confirmed_at = Some ''t1''\<rparr>"

definition invoice0 :: "int \<Rightarrow> string option" where
  "invoice0 tok = Some ''inv1''"

definition half :: "string \<Rightarrow> rat" where
  "half cid = 1 / 2"

definition twentieth :: "string \<Rightarrow> rat" where
  "twentieth cid = 1 / 20"

definition cap0 :: "string \<Rightarrow> rat" where
  "cap0 cid = 500000"

definition minute :: "string \<Rightarrow> int" where
  "minute cid = 60000"

definition envA :: env where
  "envA =
     \<lparr>signMessage = sign0,
      getChannels = Some [\<lparr>lnd_id = ''C1'', partner_public_key = ''lnB'', local_balance = 100,
                           remote_balance = 901, lnd_capacity = 1001, is_active = True\<rparr>],
      decodePaymentRequest = decode0, pay = pay0, createInvoice = invoice0,
      balancePoint = half, deadzone = twentieth, maxTransactionSize = cap0,
      minTimeBetweenPayments = minute,
      limitsPeriod = 3600000, useRollingLimitsPeriod = False,
      maxTransactionsPerPeriod = 2, maxAmountPerPeriod = 1000000\<rparr>"

definition envB :: env where
  "envB =
     \<lparr>signMessage = sign0,
      getChannels = Some [\<lparr>lnd_id = ''C1'', partner_public_key = ''lnA'', local_balance = 901,
                           remote_balance = 100, lnd_capacity = 1001, is_active = True\<rparr>],
      decodePaymentRequest = decode0, pay = pay0, createInvoice = invoice0,
      balancePoint = half, deadzone = twentieth, maxTransactionSize = cap0,
      minTimeBetweenPayments = minute,
      limitsPeriod = 3600000, useRollingLimitsPeriod = False,
      maxTransactionsPerPeriod = 2, maxAmountPerPeriod = 1000000\<rparr>"

definition chanA :: channel where
  "chanA =
     \<lparr>id_c = ''C1'', localPublicKey = ''lnA'', remotePublicKey = ''lnB'',
      localBalance = 100, remoteBalance = 901, capacity = 1001, isActive = True\<rparr>"

definition nodeA :: node where
  "nodeA =
     \<lparr>secret = ''s'', myPublicKey = ''meshA'',
      activeConnections = [(''meshB'', 7)],
      channelOwners = [\<lparr>owner_channelId = ''C1'', remotePeer = ''meshB'', remoteLightning = ''lnB''\<rparr>],
      publicKey = ''lnA'', alias_ln = ''alice'',
      channels = [chanA], watchList = [''C1''], blockedPending = [],
      transactions = [], written = [], payCalls = []\<rparr>"

definition nodeB :: node where
  "nodeB =
     \<lparr>secret = ''s'', myPublicKey = ''meshB'',
      activeConnections = [(''meshA'', 3)],
      channelOwners = [\<lparr>owner_channelId = ''C1'', remotePeer = ''meshA'', remoteLightning = ''lnA''\<rparr>],
      publicKey = ''lnB'', alias_ln = ''bob'',
      channels = [], watchList = [''C1''], blockedPending = [],
      transactions = [], written = [], payCalls = []\<rparr>"

definition request1 :: payInvoice_msg where
  "request1 =
     \<lparr>invoice = ''inv1'', tokens = 401, channelId = ''C1'', paidTo = ''lnA'', paidBy = ''lnB''\<rparr>"

text \<open>
  Node A after it has dispatched a rebalance of \<open>C1\<close> at time 1000: the block of one minute
  is in place.
\<close>

definition nodeA_blocked :: node where
  "nodeA_blocked = nodeA\<lparr>blockedPending := [\<lparr>id_b = ''C1'', until = 61000\<rparr>]\<rparr>"

text \<open>Two more requests: one for the invoice that pays another node, one that does not decode.\<close>

definition request2 :: payInvoice_msg where
  "request2 =
     \<lparr>invoice = ''inv2'', tokens = 401, channelId = ''C1'', paidTo = ''lnA'', paidBy = ''lnB''\<rparr>"

definition request3 :: payInvoice_msg where
  "request3 =
     \<lparr>invoice = ''garbage'', tokens = 401, channelId = ''C1'', paidTo = ''lnA'', paidBy = ''lnB''\<rparr>"

text \<open>
  Three frames from \<open>meshA\<close> carrying \<open>request1\<close>: one signed with the cluster secret at
  time 1000, one signed with another secret, and one whose timestamp is the string
  \<^verbatim>\<open>"never"\<close>, signed with the cluster secret over that timestamp. Read at 1000 the first
  is fresh, read at 11000 it is stale.
\<close>

definition frame_good :: frame where
  "frame_good =
     \<lparr>rx_message = PayInvoice request1, rx_timestamp = Num 1000,
      rx_signature = Some ''s/meshA/payInvoice''\<rparr>"

definition frame_forged :: frame where
  "frame_forged =
     \<lparr>rx_message = PayInvoice request1, rx_timestamp = Num 1000,
      rx_signature = Some ''x/meshA/payInvoice''\<rparr>"

definition frame_timeless :: frame where
  "frame_timeless =
     \<lparr>rx_message = PayInvoice request1, rx_timestamp = NaN_value ''never'',
      rx_signature = Some ''s/meshA/payInvoice/never''\<rparr>"




text \<open>
  Node A with the far side of \<open>C1\<close> empty: 100 of 1001 on the local side and nothing on the
  remote side, so that half of the two balances is less than what A already holds. And
  node A with 100 on either side, where half of the two balances is what A holds.
\<close>

definition chanA_low :: channel where
  "chanA_low = chanA\<lparr>remoteBalance := 0\<rparr>"

definition nodeA_low :: node where
  "nodeA_low = nodeA\<lparr>channels := [chanA_low]\<rparr>"

definition chanA_even :: channel where
  "chanA_even = chanA\<lparr>remoteBalance := 100\<rparr>"

definition nodeA_even :: node where
  "nodeA_even = nodeA\<lparr>channels := [chanA_even]\<rparr>"

text \<open>
  A channel that is local to exactly 7/10, with a balance point of 0.8 and a dead zone of
  0.1 in place of those of node A.
\<close>

definition chan_edge :: channel where
  "chan_edge = chanA\<lparr>localBalance := 7, remoteBalance := 3, capacity := 10\<rparr>"

definition four_fifths :: "string \<Rightarrow> rat" where
  "four_fifths cid = 4 / 5"

definition tenth :: "string \<Rightarrow> rat" where
  "tenth cid = 1 / 10"

definition envA_edge :: env where
  "envA_edge = envA\<lparr>balancePoint := four_fifths, deadzone := tenth\<rparr>"

text \<open>The surroundings of node B with a lightning node whose \<^verbatim>\<open>pay\<close> call throws.\<close>

definition pay_down :: "string \<Rightarrow> string \<Rightarrow> pay_outcome" where
  "pay_down request cid = Pay_throws"

definition envB_down :: env where
  "envB_down = envB\<lparr>pay := pay_down\<rparr>"

section \<open>The properties as the specification words them\<close>

text \<open>
  The four grounds on which the acceptance policy calls a request invalid, for an invoice
  that decoded to \<open>details\<close>: the amounts differ, the destinations differ, the channel is
  not in the refreshed view, or its remote key is not the payee.
\<close>

definition invalidRequest :: "env \<Rightarrow> payInvoice_msg \<Rightarrow> decoded \<Rightarrow> node \<Rightarrow> bool" where
  "invalidRequest E msg details s =
     (dec_tokens details \<noteq> tokens msg
      \<or> dec_destination details \<noteq> paidTo msg
      \<or> (case find (\<lambda>c. id_c c = channelId msg) (channels (refreshChannelList E s)) of
            None \<Rightarrow> True
          | Some channelInfo \<Rightarrow> remotePublicKey channelInfo \<noteq> paidTo msg))"

text \<open>
  A message is verified when the signature recomputed from the secret, the received
  timestamp, the sender's mesh key and the payload is the received one, and the timestamp
  is a number within 5000 ms of the clock; a frame that does not parse is never accepted.
\<close>

definition verified :: "env \<Rightarrow> string \<Rightarrow> int \<Rightarrow> string \<Rightarrow> frame \<Rightarrow> bool" where
  "verified E sec now sender obj =
     (Some (signMessage E sec (rx_timestamp obj) sender (rx_message obj)) = rx_signature obj
      \<and> (case rx_timestamp obj of Num t \<Rightarrow> \<bar>now - t\<bar> \<le> 5000 | NaN_value v \<Rightarrow> False))"

definition accepted :: "env \<Rightarrow> node \<Rightarrow> int \<Rightarrow> string \<Rightarrow> frame option \<Rightarrow> bool" where
  "accepted E s now sender data =
     (case data of None \<Rightarrow> False | Some obj \<Rightarrow> verified E (secret s) now sender obj)"



section \<open>Sessions: teardown and replacement\<close>

lemma foldl_unwatchOwned_watchList:
  "watchList (foldl (unwatchOwned p) s os) =
     filter (\<lambda>c. c \<notin> owner_channelId ` {ow \<in> set os. remotePeer ow = p}) (watchList s)"
proof (induction os arbitrary: s)
  case Nil
  then show ?case by simp
next
  case (Cons ow os)
  show ?case
  proof (cases "remotePeer ow = p")
    case True
    then have "watchList (unwatchOwned p s ow) =
                 filter (\<lambda>c. c \<noteq> owner_channelId ow) (watchList s)"
      by (simp add: unwatchOwned_def unwatchChannel_def)
    then show ?thesis
      using Cons.IH [of "unwatchOwned p s ow"] True
      by (auto intro!: filter_cong)
  next
    case False
    then have "unwatchOwned p s ow = s"
      by (simp add: unwatchOwned_def)
    then show ?thesis
      using Cons.IH [of s] False
      by (auto intro!: filter_cong)
  qed
qed

lemma foldl_unwatchOwned_owners:
  "channelOwners (foldl (unwatchOwned p) s os) = channelOwners s"
  by (induction os arbitrary: s) (simp_all add: unwatchOwned_def unwatchChannel_def)

lemma foldl_unwatchOwned_connections:
  "activeConnections (foldl (unwatchOwned p) s os) = activeConnections s"
  by (induction os arbitrary: s) (simp_all add: unwatchOwned_def unwatchChannel_def)

lemma removeActiveConnection_connections:
  "activeConnections (removeActiveConnection p s) = filter (\<lambda>c. fst c \<noteq> p) (activeConnections s)"
  by (simp add: removeActiveConnection_def Let_def foldl_unwatchOwned_connections)

lemma removeActiveConnection_owners:
  "channelOwners (removeActiveConnection p s) = filter (\<lambda>ow. remotePeer ow \<noteq> p) (channelOwners s)"
  by (simp add: removeActiveConnection_def Let_def foldl_unwatchOwned_owners)

lemma removeActiveConnection_watchList:
  "watchList (removeActiveConnection p s) =
     filter (\<lambda>c. c \<notin> owner_channelId ` {ow \<in> set (channelOwners s). remotePeer ow = p}) (watchList s)"
  by (simp add: removeActiveConnection_def Let_def foldl_unwatchOwned_watchList)

lemma find_filter_absent: "find (\<lambda>c. fst c = p) (filter (\<lambda>c. fst c \<noteq> p) xs) = None"
  by (induction xs) auto

lemma find_append_new:
  "find (\<lambda>c. fst c = p) (filter (\<lambda>c. fst c \<noteq> p) xs @ [(p, v)]) = Some (p, v)"
  by (induction xs) auto

text \<open>
  Claim C10. Registering a session for a mesh key that already has one does more than
  replace the socket: afterwards the table holds exactly the new socket for that key, no
  ownership record names the peer, and no channel that a record gave to the peer is on
  the watch list. Greeting the peer (\<open>onOpenConnection\<close>) changes none of this.
\<close>

theorem addActiveConnection_drops_bindings:
  "filter (\<lambda>c. fst c = p) (activeConnections (addActiveConnection p sock s)) = [(p, sock)]
   \<and> findConnection (addActiveConnection p sock s) p = Some sock
   \<and> p \<notin> remotePeer ` set (channelOwners (addActiveConnection p sock s))
   \<and> owner_channelId ` {ow \<in> set (channelOwners s). remotePeer ow = p}
       \<inter> set (watchList (addActiveConnection p sock s)) = {}
   \<and> channelOwners (onOpenConnection E now p sock s) = channelOwners (addActiveConnection p sock s)
   \<and> watchList (onOpenConnection E now p sock s) = watchList (addActiveConnection p sock s)"
proof -
  have conns: "activeConnections (addActiveConnection p sock s) =
                 filter (\<lambda>c. fst c \<noteq> p) (activeConnections s) @ [(p, sock)]"
    by (simp add: addActiveConnection_def Let_def removeActiveConnection_connections)
  have owners: "channelOwners (addActiveConnection p sock s) =
                  filter (\<lambda>ow. remotePeer ow \<noteq> p) (channelOwners s)"
    by (simp add: addActiveConnection_def Let_def removeActiveConnection_owners)
  have watch: "watchList (addActiveConnection p sock s) =
                 filter (\<lambda>c. c \<notin> owner_channelId ` {ow \<in> set (channelOwners s). remotePeer ow = p})
                   (watchList s)"
    by (simp add: addActiveConnection_def Let_def removeActiveConnection_watchList)
  have "filter (\<lambda>c. fst c = p) (filter (\<lambda>c. fst c \<noteq> p) (activeConnections s)) = []"
    by (induction "activeConnections s") (auto simp: filter_empty_conv)
  then have one: "filter (\<lambda>c. fst c = p) (activeConnections (addActiveConnection p sock s)) = [(p, sock)]"
    by (simp add: conns)
  have found: "findConnection (addActiveConnection p sock s) p = Some sock"
    by (simp add: findConnection_def conns find_append_new)
  have no_owner: "p \<notin> remotePeer ` set (channelOwners (addActiveConnection p sock s))"
    by (auto simp: owners)
  have unwatched: "owner_channelId ` {ow \<in> set (channelOwners s). remotePeer ow = p}
                     \<inter> set (watchList (addActiveConnection p sock s)) = {}"
    by (auto simp: watch)
  have hello: "channelOwners (onOpenConnection E now p sock s) = channelOwners (addActiveConnection p sock s)
               \<and> watchList (onOpenConnection E now p sock s) = watchList (addActiveConnection p sock s)"
    by (simp add: onOpenConnection_def sendMessage_def split: option.split)
  show ?thesis
    using one found no_owner unwatched hello by simp
qed

text \<open>
  At node A, where \<open>meshB\<close> owns the far side of the watched channel \<open>C1\<close>: a second
  connection of \<open>meshB\<close> on socket 9 leaves no owner and an empty watch list.
\<close>

theorem addActiveConnection_drops_bindings_witness:
  "owner_channelId ` {ow \<in> set (channelOwners nodeA). remotePeer ow = ''meshB''} = {''C1''}
   \<and> ''C1'' \<in> set (watchList nodeA)
   \<and> findConnection nodeA ''meshB'' = Some 7
   \<and> findConnection (addActiveConnection ''meshB'' 9 nodeA) ''meshB'' = Some 9
   \<and> ''C1'' \<notin> set (watchList (addActiveConnection ''meshB'' 9 nodeA))
   \<and> ''meshB'' \<notin> remotePeer ` set (channelOwners (addActiveConnection ''meshB'' 9 nodeA))"
proof -
  have owned: "owner_channelId ` {ow \<in> set (channelOwners nodeA). remotePeer ow = ''meshB''} = {''C1''}"
    by (auto simp: nodeA_def)
  have before: "''C1'' \<in> set (watchList nodeA) \<and> findConnection nodeA ''meshB'' = Some 7"
    by (simp add: nodeA_def findConnection_def)
  note after = addActiveConnection_drops_bindings [of "''meshB''" 9 nodeA envA 1000]
  from after have "owner_channelId ` {ow \<in> set (channelOwners nodeA). remotePeer ow = ''meshB''}
       \<inter> set (watchList (addActiveConnection ''meshB'' 9 nodeA)) = {}"
    by (elim conjE)
  then have unwatched: "''C1'' \<notin> set (watchList (addActiveConnection ''meshB'' 9 nodeA))"
    unfolding owned by simp
  from after have found: "findConnection (addActiveConnection ''meshB'' 9 nodeA) ''meshB'' = Some 9"
    by (elim conjE)
  from after have no_owner:
    "''meshB'' \<notin> remotePeer ` set (channelOwners (addActiveConnection ''meshB'' 9 nodeA))"
    by (elim conjE)
  from owned before found unwatched no_owner show ?thesis
    by (elim conjE) (intro conjI; assumption)
qed

text \<open>
  What the listener of \<^verbatim>\<open>close\<close> leaves: the peer has no session, no ownership record names
  it, and every channel that a record gave to it is off the watch list; the other
  sessions, records and watched channels stay.
\<close>

lemma onCloseConnection_cleans_up:
  "findConnection (onCloseConnection p s) p = None
   \<and> p \<notin> fst ` set (activeConnections (onCloseConnection p s))
   \<and> p \<notin> remotePeer ` set (channelOwners (onCloseConnection p s))
   \<and> owner_channelId ` {ow \<in> set (channelOwners s). remotePeer ow = p}
       \<inter> set (watchList (onCloseConnection p s)) = {}
   \<and> activeConnections (onCloseConnection p s) = filter (\<lambda>c. fst c \<noteq> p) (activeConnections s)
   \<and> channelOwners (onCloseConnection p s) = filter (\<lambda>ow. remotePeer ow \<noteq> p) (channelOwners s)
   \<and> watchList (onCloseConnection p s) =
       filter (\<lambda>c. c \<notin> owner_channelId ` {ow \<in> set (channelOwners s). remotePeer ow = p})
         (watchList s)"
proof -
  have conns: "activeConnections (onCloseConnection p s) = filter (\<lambda>c. fst c \<noteq> p) (activeConnections s)"
    by (simp add: onCloseConnection_def removeActiveConnection_connections)
  have owners: "channelOwners (onCloseConnection p s) = filter (\<lambda>ow. remotePeer ow \<noteq> p) (channelOwners s)"
    by (simp add: onCloseConnection_def removeActiveConnection_owners)
  have watch: "watchList (onCloseConnection p s) =
       filter (\<lambda>c. c \<notin> owner_channelId ` {ow \<in> set (channelOwners s). remotePeer ow = p})
         (watchList s)"
    by (simp add: onCloseConnection_def removeActiveConnection_watchList)
  have "findConnection (onCloseConnection p s) p = None"
    by (simp add: findConnection_def conns find_filter_absent)
  moreover have "p \<notin> fst ` set (activeConnections (onCloseConnection p s))"
    by (auto simp: conns)
  moreover have "p \<notin> remotePeer ` set (channelOwners (onCloseConnection p s))"
    by (auto simp: owners)
  moreover have "owner_channelId ` {ow \<in> set (channelOwners s). remotePeer ow = p}
       \<inter> set (watchList (onCloseConnection p s)) = {}"
    by (auto simp: watch)
  ultimately show ?thesis
    using conns owners watch by simp
qed

text \<open>
  The listener of \<^verbatim>\<open>error\<close> only logs: between the \<^verbatim>\<open>error\<close> event and the \<^verbatim>\<open>close\<close> event
  that follows it the session, its ownership record and its watched channel are still
  there.
\<close>

lemma onSocketError_keeps_session:
  "findConnection (onSocketError ''meshB'' ''connection reset'' nodeA) ''meshB'' = Some 7
   \<and> ''meshB'' \<in> remotePeer ` set (channelOwners (onSocketError ''meshB'' ''connection reset'' nodeA))
   \<and> ''C1'' \<in> set (watchList (onSocketError ''meshB'' ''connection reset'' nodeA))"
  by (simp add: onSocketError_def nodeA_def findConnection_def)

text \<open>
  Claim C7. After a peer's session has ended, with the \<^verbatim>\<open>close\<close> event of its socket or with
  an \<^verbatim>\<open>error\<close> event and the \<^verbatim>\<open>close\<close> event after it, the peer is absent from the table of
  active sessions, no ownership record names it, and every channel that a record gave to
  it, the channels watched on its behalf, is off the watch list; the sessions, records and
  watched channels of the other peers stay.
\<close>

theorem session_end_cleans_up:
  "findConnection (sessionEnds p how s) p = None
   \<and> p \<notin> fst ` set (activeConnections (sessionEnds p how s))
   \<and> p \<notin> remotePeer ` set (channelOwners (sessionEnds p how s))
   \<and> owner_channelId ` {ow \<in> set (channelOwners s). remotePeer ow = p}
       \<inter> set (watchList (sessionEnds p how s)) = {}
   \<and> activeConnections (sessionEnds p how s) = filter (\<lambda>c. fst c \<noteq> p) (activeConnections s)
   \<and> channelOwners (sessionEnds p how s) = filter (\<lambda>ow. remotePeer ow \<noteq> p) (channelOwners s)
   \<and> watchList (sessionEnds p how s) =
       filter (\<lambda>c. c \<notin> owner_channelId ` {ow \<in> set (channelOwners s). remotePeer ow = p})
         (watchList s)"
proof -
  have ends: "sessionEnds p how s = onCloseConnection p s"
    by (cases how) (simp_all add: sessionEnds_def onSocketError_def)
  show ?thesis
    unfolding ends by (rule onCloseConnection_cleans_up)
qed

text \<open>
  At node A, where \<open>meshB\<close> has a session and owns the far side of the watched channel
  \<open>C1\<close>: the session of \<open>meshB\<close> ends with a close, or with an error and the close.
\<close>

theorem session_end_cleans_up_witness:
  "findConnection nodeA ''meshB'' = Some 7
   \<and> owner_channelId ` {ow \<in> set (channelOwners nodeA). remotePeer ow = ''meshB''} = {''C1''}
   \<and> ''C1'' \<in> set (watchList nodeA)
   \<and> findConnection (sessionEnds ''meshB'' Closes nodeA) ''meshB'' = None
   \<and> ''C1'' \<notin> set (watchList (sessionEnds ''meshB'' Closes nodeA))
   \<and> findConnection (sessionEnds ''meshB'' (Fails ''connection reset'') nodeA) ''meshB'' = None
   \<and> ''meshB'' \<notin> remotePeer `
         set (channelOwners (sessionEnds ''meshB'' (Fails ''connection reset'') nodeA))
   \<and> ''C1'' \<notin> set (watchList (sessionEnds ''meshB'' (Fails ''connection reset'') nodeA))"
proof -
  have owned: "owner_channelId ` {ow \<in> set (channelOwners nodeA). remotePeer ow = ''meshB''} = {''C1''}"
    by (auto simp: nodeA_def)
  have before: "''C1'' \<in> set (watchList nodeA) \<and> findConnection nodeA ''meshB'' = Some 7"
    by (simp add: nodeA_def findConnection_def)
  note closed = session_end_cleans_up [of "''meshB''" Closes nodeA]
  note failed = session_end_cleans_up [of "''meshB''" "Fails ''connection reset''" nodeA]
  from closed have "owner_channelId ` {ow \<in> set (channelOwners nodeA). remotePeer ow = ''meshB''}
       \<inter> set (watchList (sessionEnds ''meshB'' Closes nodeA)) = {}"
    by (elim conjE)
  then have unwatched: "''C1'' \<notin> set (watchList (sessionEnds ''meshB'' Closes nodeA))"
    unfolding owned by simp
  from closed have gone: "findConnection (sessionEnds ''meshB'' Closes nodeA) ''meshB'' = None"
    by (elim conjE)
  from failed have "owner_channelId ` {ow \<in> set (channelOwners nodeA). remotePeer ow = ''meshB''}
       \<inter> set (watchList (sessionEnds ''meshB'' (Fails ''connection reset'') nodeA)) = {}"
    by (elim conjE)
  then have unwatched': "''C1'' \<notin> set (watchList (sessionEnds ''meshB'' (Fails ''connection reset'') nodeA))"
    unfolding owned by simp
  from failed have gone':
    "findConnection (sessionEnds ''meshB'' (Fails ''connection reset'') nodeA) ''meshB'' = None"
    by (elim conjE)
  from failed have no_owner: "''meshB'' \<notin> remotePeer `
         set (channelOwners (sessionEnds ''meshB'' (Fails ''connection reset'') nodeA))"
    by (elim conjE)
  from owned before gone unwatched gone' no_owner unwatched' show ?thesis
    by (elim conjE) (intro conjI; assumption)
qed

section \<open>The rebalance exchange\<close>

lemma refreshChannelList_frame:
  "activeConnections (refreshChannelList E s) = activeConnections s
   \<and> secret (refreshChannelList E s) = secret s
   \<and> myPublicKey (refreshChannelList E s) = myPublicKey s
   \<and> transactions (refreshChannelList E s) = transactions s
   \<and> written (refreshChannelList E s) = written s
   \<and> payCalls (refreshChannelList E s) = payCalls s
   \<and> blockedPending (refreshChannelList E s) = blockedPending s"
  by (simp add: refreshChannelList_def split: option.split)

lemma shouldPayInvoice_frame:
  "activeConnections (snd (shouldPayInvoice E now msg s)) = activeConnections s
   \<and> secret (snd (shouldPayInvoice E now msg s)) = secret s
   \<and> myPublicKey (snd (shouldPayInvoice E now msg s)) = myPublicKey s
   \<and> transactions (snd (shouldPayInvoice E now msg s)) = transactions s
   \<and> written (snd (shouldPayInvoice E now msg s)) = written s
   \<and> payCalls (snd (shouldPayInvoice E now msg s)) = payCalls s"
  by (simp add: shouldPayInvoice_def findChannelFromId_def Let_def refreshChannelList_frame
      split: option.split)

lemma payInvoice_frame:
  "activeConnections (snd (payInvoice E now msg s)) = activeConnections s
   \<and> secret (snd (payInvoice E now msg s)) = secret s
   \<and> myPublicKey (snd (payInvoice E now msg s)) = myPublicKey s
   \<and> transactions (snd (payInvoice E now msg s)) = transactions s
   \<and> written (snd (payInvoice E now msg s)) = written s"
  using shouldPayInvoice_frame [of E now msg s]
  by (cases "shouldPayInvoice E now msg s")
     (auto simp: payInvoice_def Let_def split: option.split pay_outcome.split)

lemma shouldPayInvoice_invalid:
  assumes "decodePaymentRequest E (invoice msg) = Some details"
    and "invalidRequest E msg details s"
  shows "fst (shouldPayInvoice E now msg s) = Some invalid_request"
  using assms
  by (auto simp: shouldPayInvoice_def invalidRequest_def findChannelFromId_def Let_def
      split: option.splits)

lemma payInvoice_invalid:
  assumes "decodePaymentRequest E (invoice msg) = Some details"
    and "invalidRequest E msg details s"
  shows "fst (payInvoice E now msg s) =
           \<lparr>allow = Some False, reason = Some (Reason ''invalid request''), retryAt = None,
            paymentId = None, confirmed = False, confirmedAt = None\<rparr>
         \<and> payCalls (snd (payInvoice E now msg s)) = payCalls s"
  using shouldPayInvoice_invalid [OF assms, of now] shouldPayInvoice_frame [of E now msg s]
  by (cases "shouldPayInvoice E now msg s") (simp add: payInvoice_def invalid_request_def)

lemma onPayInvoice_written:
  "written (onPayInvoice E now peer msg s) =
     (case findConnection s peer of
        None \<Rightarrow> written s
      | Some sock \<Rightarrow>
          written s @
            [(sock, \<lparr>message = PaymentResult msg (fst (payInvoice E now msg s)), timestamp = now,
                     signature = signMessage E (secret s) (Num now) (myPublicKey s)
                                   (PaymentResult msg (fst (payInvoice E now msg s)))\<rparr>)])"
  using payInvoice_frame [of E now msg s]
  by (cases "payInvoice E now msg s")
     (simp add: onPayInvoice_def sendMessage_def findConnection_def split: option.split)

lemma sendMessage_frame:
  "payCalls (sendMessage E now to m s) = payCalls s
   \<and> transactions (sendMessage E now to m s) = transactions s
   \<and> blockedPending (sendMessage E now to m s) = blockedPending s
   \<and> channelOwners (sendMessage E now to m s) = channelOwners s
   \<and> watchList (sendMessage E now to m s) = watchList s
   \<and> activeConnections (sendMessage E now to m s) = activeConnections s"
  by (simp add: sendMessage_def split: option.split)

text \<open>
  Claim C8. When the invoice decodes and the request is invalid on one of the four grounds,
  \<^verbatim>\<open>payInvoice\<close> answers \<^verbatim>\<open>confirmed = false\<close> with the reason \<^verbatim>\<open>'invalid request'\<close>, no call of
  \<^verbatim>\<open>lnService.pay\<close> is made, and \<^verbatim>\<open>_onPayInvoice\<close> writes exactly that answer, as a
  \<^verbatim>\<open>paymentResult\<close>, to the socket of the requesting peer.
\<close>

theorem onPayInvoice_invalid_request:
  assumes "decodePaymentRequest E (invoice msg) = Some details"
    and "invalidRequest E msg details s"
    and "findConnection s peer = Some sock"
  shows "confirmed (fst (payInvoice E now msg s)) = False
         \<and> reason (fst (payInvoice E now msg s)) = Some (Reason ''invalid request'')
         \<and> payCalls (onPayInvoice E now peer msg s) = payCalls s
         \<and> written (onPayInvoice E now peer msg s) =
             written s @
               [(sock, \<lparr>message = PaymentResult msg (fst (payInvoice E now msg s)),
                        timestamp = now,
                        signature = signMessage E (secret s) (Num now) (myPublicKey s)
                                      (PaymentResult msg (fst (payInvoice E now msg s)))\<rparr>)]"
proof -
  note inv = payInvoice_invalid [OF assms(1,2), of now]
  have calls: "payCalls (onPayInvoice E now peer msg s) = payCalls (snd (payInvoice E now msg s))"
    by (cases "payInvoice E now msg s") (simp add: onPayInvoice_def sendMessage_frame)
  have "written (onPayInvoice E now peer msg s) =
             written s @
               [(sock, \<lparr>message = PaymentResult msg (fst (payInvoice E now msg s)),
                        timestamp = now,
                        signature = signMessage E (secret s) (Num now) (myPublicKey s)
                                      (PaymentResult msg (fst (payInvoice E now msg s)))\<rparr>)]"
    by (simp add: onPayInvoice_written assms(3))
  with inv calls show ?thesis by simp
qed

text \<open>
  Scenario S6 at node B: the request names \<open>lnA\<close> as payee, the invoice pays \<open>lnY\<close>.
\<close>

theorem onPayInvoice_invalid_request_witness:
  "decodePaymentRequest envB (invoice request2) = Some \<lparr>dec_tokens = 401, dec_destination = ''lnY''\<rparr>
   \<and> invalidRequest envB request2 \<lparr>dec_tokens = 401, dec_destination = ''lnY''\<rparr> nodeB
   \<and> findConnection nodeB ''meshA'' = Some 3
   \<and> confirmed (fst (payInvoice envB 1000 request2 nodeB)) = False
   \<and> reason (fst (payInvoice envB 1000 request2 nodeB)) = Some (Reason ''invalid request'')
   \<and> payCalls (onPayInvoice envB 1000 ''meshA'' request2 nodeB) = payCalls nodeB
   \<and> written (onPayInvoice envB 1000 ''meshA'' request2 nodeB) =
       written nodeB @
         [(3, \<lparr>message = PaymentResult request2 (fst (payInvoice envB 1000 request2 nodeB)),
               timestamp = 1000,
               signature = signMessage envB (secret nodeB) (Num 1000) (myPublicKey nodeB)
                             (PaymentResult request2 (fst (payInvoice envB 1000 request2 nodeB)))\<rparr>)]"
proof -
  have decodes: "decodePaymentRequest envB (invoice request2) =
                   Some \<lparr>dec_tokens = 401, dec_destination = ''lnY''\<rparr>"
    by (simp add: envB_def request2_def decode0_def)
  have invalid: "invalidRequest envB request2 \<lparr>dec_tokens = 401, dec_destination = ''lnY''\<rparr> nodeB"
    by (simp add: invalidRequest_def request2_def)
  have session: "findConnection nodeB ''meshA'' = Some 3"
    by (simp add: findConnection_def nodeB_def)
  from decodes invalid session
    onPayInvoice_invalid_request [OF decodes invalid session, of 1000]
  show ?thesis
    by (elim conjE) (intro conjI; assumption)
qed

text \<open>
  Claim C9 at an invoice that fails to decode. \<^verbatim>\<open>_shouldPayInvoice\<close> catches the exception
  itself and returns the bare \<^verbatim>\<open>false\<close>, so the answer is \<^verbatim>\<open>confirmed = false\<close> with no reason
  at all; the reason \<^verbatim>\<open>'payment failed'\<close> is given only on the path through \<^verbatim>\<open>lnService.pay\<close>.
\<close>

theorem payInvoice_decode_throws_no_reason:
  "decodePaymentRequest envB (invoice request3) = None
   \<and> fst (payInvoice envB 1000 request3 nodeB) =
       \<lparr>allow = None, reason = None, retryAt = None,
        paymentId = None, confirmed = False, confirmedAt = None\<rparr>
   \<and> written (onPayInvoice envB 1000 ''meshA'' request3 nodeB) =
       [(3, \<lparr>message = PaymentResult request3
                \<lparr>allow = None, reason = None, retryAt = None,
                 paymentId = None, confirmed = False, confirmedAt = None\<rparr>,
             timestamp = 1000, signature = ''s/meshB/paymentResult''\<rparr>)]"
proof -
  have throws: "decodePaymentRequest envB (invoice request3) = None"
    by (simp add: envB_def request3_def decode0_def)
  then have answer: "fst (payInvoice envB 1000 request3 nodeB) =
       \<lparr>allow = None, reason = None, retryAt = None,
        paymentId = None, confirmed = False, confirmedAt = None\<rparr>"
    by (simp add: payInvoice_def shouldPayInvoice_def)
  have "written (onPayInvoice envB 1000 ''meshA'' request3 nodeB) =
       [(3, \<lparr>message = PaymentResult request3 (fst (payInvoice envB 1000 request3 nodeB)),
             timestamp = 1000, signature = ''s/meshB/paymentResult''\<rparr>)]"
    by (simp add: onPayInvoice_written findConnection_def nodeB_def envB_def sign0_def)
  with throws answer show ?thesis
    by simp
qed

lemma payInvoice_decode_throws:
  "decodePaymentRequest E (invoice msg) = None \<Longrightarrow>
     fst (payInvoice E now msg s) =
       \<lparr>allow = None, reason = None, retryAt = None,
        paymentId = None, confirmed = False, confirmedAt = None\<rparr>"
  by (simp add: payInvoice_def shouldPayInvoice_def)

text \<open>
  An exception of \<^verbatim>\<open>lnService.pay\<close> is caught in \<^verbatim>\<open>payInvoice\<close>: for a request that the
  acceptance policy allows, the answer is then the last \<^verbatim>\<open>return\<close> of the function,
  \<^verbatim>\<open>confirmed = false\<close> with the reason \<^verbatim>\<open>'payment failed'\<close>.
\<close>

lemma payInvoice_pay_throws:
  "fst (shouldPayInvoice E now msg s) = Some d \<Longrightarrow> d_allow d \<Longrightarrow>
   pay E (invoice msg) (channelId msg) = Pay_throws \<Longrightarrow>
     fst (payInvoice E now msg s) = payment_failed"
  by (cases "shouldPayInvoice E now msg s") (simp add: payInvoice_def Let_def)

text \<open>At node B, whose policy allows \<open>request1\<close>, with a lightning node that cannot pay.\<close>

theorem payInvoice_pay_throws_witness:
  "fst (shouldPayInvoice envB_down 1000 request1 nodeB) =
     Some \<lparr>d_allow = True, d_reason = None, d_retryAt = None\<rparr>
   \<and> pay envB_down (invoice request1) (channelId request1) = Pay_throws
   \<and> fst (payInvoice envB_down 1000 request1 nodeB) = payment_failed
   \<and> reason payment_failed = Some (Reason ''payment failed'')
   \<and> confirmed payment_failed = False"
proof -
  have should: "fst (shouldPayInvoice envB_down 1000 request1 nodeB) =
      Some \<lparr>d_allow = True, d_reason = None, d_retryAt = None\<rparr>"
    by (simp add: shouldPayInvoice_def findChannelFromId_def refreshChannelList_def
        denyPaymentReason_def transactions_filter_def Let_def
        envB_down_def envB_def nodeB_def request1_def decode0_def)
  have allowed: "d_allow \<lparr>d_allow = True, d_reason = None, d_retryAt = None\<rparr>"
    by simp
  have throws: "pay envB_down (invoice request1) (channelId request1) = Pay_throws"
    by (simp add: envB_down_def pay_down_def)
  from should throws payInvoice_pay_throws [OF should allowed throws] show ?thesis
    by (simp add: payment_failed_def)
qed

text \<open>
  Claim C1, as amended. \<^verbatim>\<open>_onPayInvoice\<close>, the responder's handler, leaves the audit log as
  it is, whatever the outcome of the payment. The entry with the state \<^verbatim>\<open>complete\<close> or
  \<^verbatim>\<open>failed\<close> is appended by \<^verbatim>\<open>_onPaymentResult\<close>, on the node that receives the result:
  \<^verbatim>\<open>complete\<close> if the result says \<^verbatim>\<open>confirmed\<close>, \<^verbatim>\<open>failed\<close> otherwise.
\<close>

theorem audit_entry_on_paymentResult:
  "transactions (onPayInvoice E now peer msg s) = transactions s
   \<and> transactions (onPaymentResult now peer msg result s) =
       transactions s @
         [\<lparr>tx_paidTo = paidTo msg, tx_paidBy = paidBy msg, tx_channelId = channelId msg,
           amount = tokens msg, tx_invoice = invoice msg,
           state = (if confirmed result then ''complete'' else ''failed''),
           tx_timestamp = now\<rparr>]"
proof -
  have "transactions (onPayInvoice E now peer msg s) = transactions s"
    using payInvoice_frame [of E now msg s]
    by (cases "payInvoice E now msg s") (simp add: onPayInvoice_def sendMessage_frame)
  moreover have "transactions (onPaymentResult now peer msg result s) =
       transactions s @
         [\<lparr>tx_paidTo = paidTo msg, tx_paidBy = paidBy msg, tx_channelId = channelId msg,
           amount = tokens msg, tx_invoice = invoice msg,
           state = (if confirmed result then ''complete'' else ''failed''),
           tx_timestamp = now\<rparr>]"
    by (simp add: onPaymentResult_def confirmPayment_def transactions_add_def Let_def
        split: option.split)
  ultimately show ?thesis by simp
qed

text \<open>
  Claim C1 as stated fails at node B: it pays the invoice of \<open>request1\<close>, the payment is
  confirmed, and its audit log is as empty as before.
\<close>

theorem onPayInvoice_appends_no_audit_entry:
  "payCalls (onPayInvoice envB 1000 ''meshA'' request1 nodeB) = [(''inv1'', ''C1'')]
   \<and> confirmed (fst (payInvoice envB 1000 request1 nodeB)) = True
   \<and> transactions nodeB = []
   \<and> transactions (onPayInvoice envB 1000 ''meshA'' request1 nodeB) = []"
proof -
  have should: "shouldPayInvoice envB 1000 request1 nodeB =
      (Some \<lparr>d_allow = True, d_reason = None, d_retryAt = None\<rparr>, refreshChannelList envB nodeB)"
    by (simp add: shouldPayInvoice_def findChannelFromId_def refreshChannelList_def
        denyPaymentReason_def transactions_filter_def Let_def
        envB_def nodeB_def request1_def decode0_def)
  have paid: "payInvoice envB 1000 request1 nodeB =
      (\<lparr>allow = Some True, reason = None, retryAt = None, paymentId = Some ''p1'',
        confirmed = True, confirmedAt = Some ''t1''\<rparr>,
       (refreshChannelList envB nodeB)\<lparr>payCalls := [(''inv1'', ''C1'')]\<rparr>)"
    unfolding payInvoice_def should
    by (simp add: Let_def envB_def pay0_def request1_def refreshChannelList_def nodeB_def)
  have "payCalls (onPayInvoice envB 1000 ''meshA'' request1 nodeB) = [(''inv1'', ''C1'')]"
    by (simp add: onPayInvoice_def paid sendMessage_frame)
  moreover have empty: "transactions nodeB = []"
    by (simp add: nodeB_def)
  moreover have "transactions (onPayInvoice envB 1000 ''meshA'' request1 nodeB) = transactions nodeB"
    by (simp add: onPayInvoice_def paid sendMessage_frame refreshChannelList_frame)
  ultimately show ?thesis
    by (simp add: paid)
qed

text \<open>
  Claim C2 at a failed result without \<^verbatim>\<open>retryAt\<close>. \<^verbatim>\<open>confirmPayment\<close> first filters out every
  block of the channel and puts one back only when the result carries \<^verbatim>\<open>retryAt\<close>: the
  block of the dispatch, which was to stand, is gone.
\<close>

theorem confirmPayment_failed_clears_block:
  "blockedPending nodeA_blocked = [\<lparr>id_b = ''C1'', until = 61000\<rparr>]
   \<and> confirmed payment_failed = False
   \<and> retryAt payment_failed = None
   \<and> blockedPending (confirmPayment request1 payment_failed nodeA_blocked) = []
   \<and> blockedPending (onPaymentResult 2000 ''meshB'' request1 payment_failed nodeA_blocked) = []"
  by (simp add: nodeA_blocked_def nodeA_def payment_failed_def request1_def
      onPaymentResult_def confirmPayment_def transactions_add_def Let_def)

text \<open>
  What \<^verbatim>\<open>confirmPayment\<close> does to the blocks in every case: the blocks of the channel are
  removed, and a block until \<^verbatim>\<open>retryAt\<close> is put in when the result is not confirmed and
  carries a \<^verbatim>\<open>retryAt\<close> (a number that is not zero).
\<close>

lemma confirmPayment_blocks:
  "blockedPending (confirmPayment msg result s) =
     filter (\<lambda>c. id_b c \<noteq> channelId msg) (blockedPending s) @
     (case retryAt result of
        None \<Rightarrow> []
      | Some r \<Rightarrow> if \<not> confirmed result \<and> r \<noteq> 0 then [\<lparr>id_b = channelId msg, until = r\<rparr>] else [])"
  by (simp add: confirmPayment_def Let_def split: option.split)

section \<open>Verification of inbound messages\<close>

lemma onMessage_cases:
  "onMessage E now peer data s =
     (case data of
        None \<Rightarrow> s
      | Some obj \<Rightarrow>
          if Some (signMessage E (secret s) (rx_timestamp obj) peer (rx_message obj)) = rx_signature obj
             \<and> \<not> tooOld now (rx_timestamp obj)
          then dispatch E now peer (rx_message obj) s else s)"
  by (simp add: onMessage_def split: option.split)

lemma nodeB_pays_request1:
  "payCalls (onPayInvoice envB now ''meshA'' request1 nodeB) = [(''inv1'', ''C1'')]"
proof -
  have should: "shouldPayInvoice envB now request1 nodeB =
      (Some \<lparr>d_allow = True, d_reason = None, d_retryAt = None\<rparr>, refreshChannelList envB nodeB)"
    by (simp add: shouldPayInvoice_def findChannelFromId_def refreshChannelList_def
        denyPaymentReason_def transactions_filter_def Let_def
        envB_def nodeB_def request1_def decode0_def)
  have paid: "payInvoice envB now request1 nodeB =
      (\<lparr>allow = Some True, reason = None, retryAt = None, paymentId = Some ''p1'',
        confirmed = True, confirmedAt = Some ''t1''\<rparr>,
       (refreshChannelList envB nodeB)\<lparr>payCalls := [(''inv1'', ''C1'')]\<rparr>)"
    unfolding payInvoice_def should
    by (simp add: Let_def envB_def pay0_def request1_def refreshChannelList_def nodeB_def)
  show ?thesis
    by (simp add: onPayInvoice_def paid sendMessage_frame)
qed

text \<open>
  Claim C3 at a frame whose timestamp is not a number. The timestamp is the string
  \<^verbatim>\<open>"never"\<close> and the signature is the one \<^verbatim>\<open>signMessage\<close> gives for it, so the signature test
  passes; the age of the frame is \<^verbatim>\<open>NaN\<close>, so \<^verbatim>\<open>age > 5000\<close> is false and the freshness
  test passes too. The frame is not verified, and yet node B runs the \<^verbatim>\<open>payInvoice\<close>
  handler and pays, at whatever time the frame arrives.
\<close>

theorem onMessage_timeless_frame_runs:
  "rx_timestamp frame_timeless = NaN_value ''never''
   \<and> \<not> verified envB (secret nodeB) 1000 ''meshA'' frame_timeless
   \<and> \<not> verified envB (secret nodeB) 86400000 ''meshA'' frame_timeless
   \<and> payCalls nodeB = []
   \<and> payCalls (onMessage envB 1000 ''meshA'' (Some frame_timeless) nodeB) = [(''inv1'', ''C1'')]
   \<and> payCalls (onMessage envB 86400000 ''meshA'' (Some frame_timeless) nodeB) = [(''inv1'', ''C1'')]"
proof -
  have timeless: "rx_timestamp frame_timeless = NaN_value ''never''"
    by (simp add: frame_timeless_def)
  then have unverified: "\<not> verified envB (secret nodeB) now ''meshA'' frame_timeless" for now
    by (simp add: verified_def)
  have signed: "Some (signMessage envB (secret nodeB) (rx_timestamp frame_timeless) ''meshA''
                        (rx_message frame_timeless)) = rx_signature frame_timeless"
    by (simp add: frame_timeless_def envB_def nodeB_def sign0_def)
  have runs: "onMessage envB now ''meshA'' (Some frame_timeless) nodeB =
                onPayInvoice envB now ''meshA'' request1 nodeB" for now
    using signed
    by (simp add: onMessage_cases timeless tooOld_def dispatch_def)
       (simp add: frame_timeless_def)
  have idle: "payCalls nodeB = []"
    by (simp add: nodeB_def)
  from timeless unverified [of 1000] unverified [of 86400000] idle show ?thesis
    by (simp add: runs nodeB_pays_request1)
qed

text \<open>
  For a frame whose timestamp is a number, \<^verbatim>\<open>_onMessage\<close> runs a handler only when the frame
  is verified: when the frame is not accepted the node is left exactly as it was (nothing
  written to any socket, the session table untouched); whenever the node changes the frame
  was accepted; and an accepted frame is handed to the handler of its type.
\<close>

theorem onMessage_verified_only:
  assumes "data = None \<or> (\<exists>obj t. data = Some obj \<and> rx_timestamp obj = Num t)"
  shows "(\<not> accepted E s now peer data \<longrightarrow> onMessage E now peer data s = s)
   \<and> (onMessage E now peer data s \<noteq> s \<longrightarrow> accepted E s now peer data)
   \<and> (\<forall>obj. data = Some obj \<and> verified E (secret s) now peer obj \<longrightarrow>
         onMessage E now peer data s = dispatch E now peer (rx_message obj) s)"
proof -
  have drop: "\<not> accepted E s now peer data \<Longrightarrow> onMessage E now peer data s = s"
    using assms
    by (cases data) (auto simp: accepted_def verified_def onMessage_cases tooOld_def)
  have run: "\<And>obj. data = Some obj \<Longrightarrow> verified E (secret s) now peer obj \<Longrightarrow>
         onMessage E now peer data s = dispatch E now peer (rx_message obj) s"
    by (auto simp: verified_def onMessage_cases tooOld_def split: tsval.splits)
  from drop run show ?thesis
    by blast
qed

text \<open>
  Scenarios S2 and S3 at node B: the forged frame and the stale frame leave the node as it
  was; the fresh frame with the right signature makes node B pay and answer.
\<close>

theorem onMessage_verified_only_witness:
  "rx_timestamp frame_forged = Num 1000
   \<and> rx_timestamp frame_good = Num 1000
   \<and> \<not> accepted envB nodeB 1000 ''meshA'' (Some frame_forged)
   \<and> onMessage envB 1000 ''meshA'' (Some frame_forged) nodeB = nodeB
   \<and> \<not> accepted envB nodeB 11000 ''meshA'' (Some frame_good)
   \<and> onMessage envB 11000 ''meshA'' (Some frame_good) nodeB = nodeB
   \<and> verified envB (secret nodeB) 1000 ''meshA'' frame_good
   \<and> onMessage envB 1000 ''meshA'' (Some frame_good) nodeB =
       dispatch envB 1000 ''meshA'' (rx_message frame_good) nodeB"
proof -
  have num_forged: "rx_timestamp frame_forged = Num 1000"
    by (simp add: frame_forged_def)
  have num_good: "rx_timestamp frame_good = Num 1000"
    by (simp add: frame_good_def)
  have dated_forged: "Some frame_forged = None
      \<or> (\<exists>obj t. Some frame_forged = Some obj \<and> rx_timestamp obj = Num t)"
    using num_forged by simp
  have dated_good: "Some frame_good = None
      \<or> (\<exists>obj t. Some frame_good = Some obj \<and> rx_timestamp obj = Num t)"
    using num_good by simp
  have forged: "\<not> accepted envB nodeB 1000 ''meshA'' (Some frame_forged)"
    by (simp add: accepted_def verified_def envB_def nodeB_def frame_forged_def sign0_def)
  have stale: "\<not> accepted envB nodeB 11000 ''meshA'' (Some frame_good)"
    by (simp add: accepted_def verified_def envB_def nodeB_def frame_good_def sign0_def)
  have good: "verified envB (secret nodeB) 1000 ''meshA'' frame_good"
    by (simp add: verified_def envB_def nodeB_def frame_good_def sign0_def)
  have dropped_forged: "onMessage envB 1000 ''meshA'' (Some frame_forged) nodeB = nodeB"
    by (rule onMessage_verified_only [OF dated_forged, of envB nodeB 1000 "''meshA''",
          THEN conjunct1, THEN mp, OF forged])
  have dropped_stale: "onMessage envB 11000 ''meshA'' (Some frame_good) nodeB = nodeB"
    by (rule onMessage_verified_only [OF dated_good, of envB nodeB 11000 "''meshA''",
          THEN conjunct1, THEN mp, OF stale])
  from onMessage_verified_only [OF dated_good, of envB nodeB 1000 "''meshA''"] good
  have handled: "onMessage envB 1000 ''meshA'' (Some frame_good) nodeB =
       dispatch envB 1000 ''meshA'' (rx_message frame_good) nodeB"
    by simp
  from num_forged num_good forged dropped_forged stale dropped_stale good handled show ?thesis
    by (intro conjI)
qed

section \<open>Rolling limits of the payer\<close>





section \<open>The cooldown of a channel\<close>

lemma find_blocked:
  assumes "\<exists>b \<in> set bs. id_b b = cid \<and> now < until b"
  shows "find (\<lambda>c. id_b c = cid) (filter (\<lambda>c. until c > now) bs) \<noteq> None"
  using assms by (auto simp: find_None_iff)

lemma rateLimitRebalance_written:
  "written (snd (rateLimitRebalance E now ch s)) = written s"
  by (simp add: rateLimitRebalance_def Let_def split: option.split)

lemma rateLimitRebalance_blocked:
  assumes "\<exists>b \<in> set (blockedPending s). id_b b = id_c ch \<and> now < until b"
  shows "fst (rateLimitRebalance E now ch s)"
  using find_blocked [OF assms]
  by (auto simp: rateLimitRebalance_def Let_def split: option.split)

lemma rateLimitRebalance_free:
  assumes "\<not> fst (rateLimitRebalance E now ch s)"
  shows "\<lparr>id_b = id_c ch, until = now + minTimeBetweenPayments E (id_c ch)\<rparr>
           \<in> set (blockedPending (snd (rateLimitRebalance E now ch s)))"
  using assms
  by (auto simp: rateLimitRebalance_def Let_def split: option.splits)

lemma onRequestRebalance_blockedPending:
  "blockedPending (onRequestRebalance E now ch request tok s) = blockedPending s"
  by (simp add: onRequestRebalance_def sendMessage_frame transactions_add_def split: option.split)

lemma rebalanceChannel_blocked:
  assumes "fst (rateLimitRebalance E now ch s)"
  shows "rebalanceChannel E now ch a s = snd (rateLimitRebalance E now ch s)"
  using assms
  by (cases "rateLimitRebalance E now ch s") (simp add: rebalanceChannel_def)

lemma rebalanceChannel_free:
  assumes "\<not> fst (rateLimitRebalance E now ch s)"
  shows "rebalanceChannel E now ch a s =
           (case createInvoice E (toFixed0 a) of
              None \<Rightarrow> snd (rateLimitRebalance E now ch s)
            | Some request \<Rightarrow>
                onRequestRebalance E now ch request (toFixed0 a) (snd (rateLimitRebalance E now ch s)))"
  using assms
  by (cases "rateLimitRebalance E now ch s")
     (simp add: rebalanceChannel_def Let_def split: option.split)

lemma find_channel_id:
  "find (\<lambda>c. id_c c = cid) chs = Some ch \<Longrightarrow> id_c ch = cid"
  by (auto simp: find_Some_iff)

text \<open>
  Claim C6. While a block of the channel with \<open>until > now\<close> exists, neither the tick for
  the channel nor \<^verbatim>\<open>_rebalanceChannel\<close> writes anything to a socket. And when
  \<^verbatim>\<open>_rebalanceChannel\<close> does write, the write is made by \<^verbatim>\<open>_onRequestRebalance\<close> from the state
  that \<^verbatim>\<open>_rateLimitRebalance\<close> left: nothing had been written yet and the block with
  \<open>until = now + minTimeBetweenPayments\<close> was already in it; the block is still there
  afterwards.
\<close>

theorem rebalance_cooldown:
  "((\<exists>b \<in> set (blockedPending s). id_b b = cid \<and> now < until b) \<longrightarrow>
      written (snd (onConsiderChannelRebalance E now cid s)) = written s)
   \<and> ((\<exists>b \<in> set (blockedPending s). id_b b = id_c ch \<and> now < until b) \<longrightarrow>
      written (rebalanceChannel E now ch a s) = written s)
   \<and> (written (rebalanceChannel E now ch a s) \<noteq> written s \<longrightarrow>
        (\<exists>request. rebalanceChannel E now ch a s =
           onRequestRebalance E now ch request (toFixed0 a) (snd (rateLimitRebalance E now ch s)))
        \<and> written (snd (rateLimitRebalance E now ch s)) = written s
        \<and> \<lparr>id_b = id_c ch, until = now + minTimeBetweenPayments E (id_c ch)\<rparr>
             \<in> set (blockedPending (snd (rateLimitRebalance E now ch s)))
        \<and> \<lparr>id_b = id_c ch, until = now + minTimeBetweenPayments E (id_c ch)\<rparr>
             \<in> set (blockedPending (rebalanceChannel E now ch a s)))"
proof -
  have quiet: "written (rebalanceChannel E now c x s) = written s"
    if "\<exists>b \<in> set (blockedPending s). id_b b = id_c c \<and> now < until b" for c x
    using rateLimitRebalance_blocked [OF that, of E]
    by (simp add: rebalanceChannel_blocked rateLimitRebalance_written)
  have tick: "written (snd (onConsiderChannelRebalance E now cid s)) = written s"
    if blocked: "\<exists>b \<in> set (blockedPending s). id_b b = cid \<and> now < until b"
  proof (cases "find (\<lambda>c. id_c c = cid) (channels s)")
    case None
    then show ?thesis
      by (simp add: onConsiderChannelRebalance_def)
  next
    case (Some c)
    then have "id_c c = cid"
      by (rule find_channel_id)
    with blocked have "written (rebalanceChannel E now c x s) = written s" for x
      by (simp add: quiet)
    with Some show ?thesis
      by (simp add: onConsiderChannelRebalance_def Let_def)
  qed
  have sent: "(\<exists>request. rebalanceChannel E now ch a s =
           onRequestRebalance E now ch request (toFixed0 a) (snd (rateLimitRebalance E now ch s)))
        \<and> written (snd (rateLimitRebalance E now ch s)) = written s
        \<and> \<lparr>id_b = id_c ch, until = now + minTimeBetweenPayments E (id_c ch)\<rparr>
             \<in> set (blockedPending (snd (rateLimitRebalance E now ch s)))
        \<and> \<lparr>id_b = id_c ch, until = now + minTimeBetweenPayments E (id_c ch)\<rparr>
             \<in> set (blockedPending (rebalanceChannel E now ch a s))"
    if changed: "written (rebalanceChannel E now ch a s) \<noteq> written s"
  proof -
    have free: "\<not> fst (rateLimitRebalance E now ch s)"
      using changed by (auto simp: rebalanceChannel_blocked rateLimitRebalance_written)
    note step = rebalanceChannel_free [OF free, of a]
    from changed step obtain request where
      request: "createInvoice E (toFixed0 a) = Some request"
      by (cases "createInvoice E (toFixed0 a)") (auto simp: rateLimitRebalance_written)
    with step have run: "rebalanceChannel E now ch a s =
        onRequestRebalance E now ch request (toFixed0 a) (snd (rateLimitRebalance E now ch s))"
      by simp
    from run rateLimitRebalance_free [OF free] show ?thesis
      by (auto simp: rateLimitRebalance_written onRequestRebalance_blockedPending)
  qed
  from quiet [of ch a] tick sent show ?thesis
    by blast
qed

lemma requestAmount_chanA: "requestAmount envA ''C1'' chanA = 801 / 2"
  by (simp add: requestAmount_def chanA_def envA_def half_def cap0_def Let_def)

lemma rebalance_nodeA:
  "rebalanceChannel envA 1000 chanA (801 / 2) nodeA =
     nodeA\<lparr>blockedPending := [\<lparr>id_b = ''C1'', until = 61000\<rparr>],
           transactions :=
             [\<lparr>tx_paidTo = ''lnA'', tx_paidBy = ''lnB'', tx_channelId = ''C1'', amount = 401,
               tx_invoice = ''inv1'', state = ''pending'', tx_timestamp = 1000\<rparr>],
           written :=
             [(7, \<lparr>message = PayInvoice \<lparr>invoice = ''inv1'', tokens = 401, channelId = ''C1'',
                                          paidTo = ''lnA'', paidBy = ''lnB''\<rparr>,
                   timestamp = 1000, signature = ''s/meshA/payInvoice''\<rparr>)]\<rparr>"
  by (simp add: nodeA_def chanA_def envA_def minute_def invoice0_def sign0_def
      toFixed0_def rebalanceChannel_def
      rateLimitRebalance_def onRequestRebalance_def sendMessage_def findConnection_def
      transactions_add_def Let_def)

text \<open>
  At node A: with the block of the dispatch at 1000 in place, the tick at 2000 writes
  nothing; the dispatch at 1000 itself leaves the block until 61000.
\<close>

theorem rebalance_cooldown_witness:
  "(\<exists>b \<in> set (blockedPending nodeA_blocked). id_b b = ''C1'' \<and> 2000 < until b)
   \<and> written (snd (onConsiderChannelRebalance envA 2000 ''C1'' nodeA_blocked)) = written nodeA_blocked
   \<and> written (rebalanceChannel envA 1000 chanA (801 / 2) nodeA) \<noteq> written nodeA
   \<and> \<lparr>id_b = ''C1'', until = 61000\<rparr>
        \<in> set (blockedPending (rebalanceChannel envA 1000 chanA (801 / 2) nodeA))"
proof -
  have blocked: "\<exists>b \<in> set (blockedPending nodeA_blocked). id_b b = ''C1'' \<and> 2000 < until b"
    by (simp add: nodeA_blocked_def)
  have quiet: "written (snd (onConsiderChannelRebalance envA 2000 ''C1'' nodeA_blocked)) =
                 written nodeA_blocked"
    by (rule rebalance_cooldown [of nodeA_blocked "''C1''" 2000 envA chanA 0,
          THEN conjunct1, THEN mp, OF blocked])
  have changed: "written (rebalanceChannel envA 1000 chanA (801 / 2) nodeA) \<noteq> written nodeA"
    by (simp add: rebalance_nodeA) (simp add: nodeA_def)
  have "\<lparr>id_b = id_c chanA, until = 1000 + minTimeBetweenPayments envA (id_c chanA)\<rparr>
          \<in> set (blockedPending (rebalanceChannel envA 1000 chanA (801 / 2) nodeA))"
    using rebalance_cooldown [of nodeA "''C1''" 1000 envA chanA "801 / 2",
          THEN conjunct2, THEN conjunct2, THEN mp, OF changed]
    by (elim conjE)
  then have kept: "\<lparr>id_b = ''C1'', until = 61000\<rparr>
        \<in> set (blockedPending (rebalanceChannel envA 1000 chanA (801 / 2) nodeA))"
    by (simp add: chanA_def envA_def minute_def)
  from blocked quiet changed kept show ?thesis
    by (intro conjI)
qed

section \<open>The amount of a rebalance\<close>

lemma toFixed0_nearest: "\<bar>of_int (toFixed0 x) - x\<bar> \<le> 1 / 2"
proof (cases "0 \<le> x")
  case True
  then have eq: "toFixed0 x = \<lfloor>x + 1 / 2\<rfloor>"
    by (simp add: toFixed0_def)
  have below: "of_int \<lfloor>x + 1 / 2\<rfloor> \<le> x + 1 / 2"
    and above: "x + 1 / 2 < of_int \<lfloor>x + 1 / 2\<rfloor> + 1"
    by linarith+
  show ?thesis
    unfolding eq abs_le_iff
  proof (intro conjI)
    show "of_int \<lfloor>x + 1 / 2\<rfloor> - x \<le> 1 / 2"
      using below by linarith
    show "- (of_int \<lfloor>x + 1 / 2\<rfloor> - x) \<le> 1 / 2"
      using above by linarith
  qed
next
  case False
  then have eq: "toFixed0 x = - \<lfloor>- x + 1 / 2\<rfloor>"
    by (simp add: toFixed0_def)
  have below: "of_int \<lfloor>- x + 1 / 2\<rfloor> \<le> - x + 1 / 2"
    and above: "- x + 1 / 2 < of_int \<lfloor>- x + 1 / 2\<rfloor> + 1"
    by linarith+
  show ?thesis
    unfolding eq abs_le_iff of_int_minus
  proof (intro conjI)
    show "- of_int \<lfloor>- x + 1 / 2\<rfloor> - x \<le> 1 / 2"
      using above by linarith
    show "- (- of_int \<lfloor>- x + 1 / 2\<rfloor> - x) \<le> 1 / 2"
      using below by linarith
  qed
qed

lemma toFixed0_tie: "0 \<le> n \<Longrightarrow> toFixed0 (of_int n + 1 / 2) = n + 1"
proof -
  assume "0 \<le> n"
  then have "(0::rat) \<le> of_int n + 1 / 2"
    by simp
  moreover have "of_int n + 1 / 2 + 1 / 2 = (of_int (n + 1) :: rat)"
    by simp
  ultimately show ?thesis
    unfolding toFixed0_def by (simp only: if_True floor_of_int)
qed

lemma rateLimitRebalance_frame:
  "secret (snd (rateLimitRebalance E now ch s)) = secret s
   \<and> myPublicKey (snd (rateLimitRebalance E now ch s)) = myPublicKey s
   \<and> activeConnections (snd (rateLimitRebalance E now ch s)) = activeConnections s
   \<and> channelOwners (snd (rateLimitRebalance E now ch s)) = channelOwners s"
  by (simp add: rateLimitRebalance_def Let_def split: option.split)

lemma onRequestRebalance_written:
  "written (onRequestRebalance E now ch request tok s) = written s
   \<or> (\<exists>sock. written (onRequestRebalance E now ch request tok s) =
         written s @
           [(sock,
             \<lparr>message = PayInvoice \<lparr>invoice = request, tokens = tok, channelId = id_c ch,
                                    paidTo = localPublicKey ch, paidBy = remotePublicKey ch\<rparr>,
              timestamp = now,
              signature = signMessage E (secret s) (Num now) (myPublicKey s)
                (PayInvoice \<lparr>invoice = request, tokens = tok, channelId = id_c ch,
                             paidTo = localPublicKey ch, paidBy = remotePublicKey ch\<rparr>)\<rparr>)])"
  by (auto simp: onRequestRebalance_def sendMessage_def findConnection_def transactions_add_def
      split: option.split)

lemma rebalanceChannel_written:
  "written (rebalanceChannel E now ch a s) = written s
   \<or> (\<exists>sock request. written (rebalanceChannel E now ch a s) =
         written s @
           [(sock,
             \<lparr>message = PayInvoice \<lparr>invoice = request, tokens = toFixed0 a, channelId = id_c ch,
                                    paidTo = localPublicKey ch, paidBy = remotePublicKey ch\<rparr>,
              timestamp = now,
              signature = signMessage E (secret s) (Num now) (myPublicKey s)
                (PayInvoice \<lparr>invoice = request, tokens = toFixed0 a, channelId = id_c ch,
                             paidTo = localPublicKey ch, paidBy = remotePublicKey ch\<rparr>)\<rparr>)])"
proof (cases "fst (rateLimitRebalance E now ch s)")
  case True
  then show ?thesis
    by (simp add: rebalanceChannel_blocked rateLimitRebalance_written)
next
  case False
  show ?thesis
  proof (cases "createInvoice E (toFixed0 a)")
    case None
    with False show ?thesis
      by (simp add: rebalanceChannel_free rateLimitRebalance_written)
  next
    case (Some request)
    with False have "rebalanceChannel E now ch a s =
        onRequestRebalance E now ch request (toFixed0 a) (snd (rateLimitRebalance E now ch s))"
      by (simp add: rebalanceChannel_free)
    with onRequestRebalance_written
           [of E now ch request "toFixed0 a" "snd (rateLimitRebalance E now ch s)"]
    show ?thesis
      by (auto simp: rateLimitRebalance_written rateLimitRebalance_frame)
  qed
qed

lemma tick_out_of_balance:
  assumes "find (\<lambda>c. id_c c = cid) (channels s) = Some ch"
    and "isActive ch"
    and "belowThreshold ch (rebalanceThreshold E cid)"
  shows "onConsiderChannelRebalance E now cid s =
           (if isPositive (requestAmount E cid ch)
            then (True, rebalanceChannel E now ch (requestAmount E cid ch) s) else (True, s))"
  using assms by (simp add: onConsiderChannelRebalance_def Let_def)

lemma rateLimitRebalance_not_blocked:
  assumes "\<not> (\<exists>b \<in> set (blockedPending s). id_b b = id_c ch \<and> now < until b)"
  shows "\<not> fst (rateLimitRebalance E now ch s)"
proof -
  from assms have "find (\<lambda>c. id_b c = id_c ch) (filter (\<lambda>c. until c > now) (blockedPending s)) = None"
    by (auto simp: find_None_iff)
  then show ?thesis
    by (simp add: rateLimitRebalance_def Let_def)
qed

lemma onRequestRebalance_sends:
  assumes "find (\<lambda>c. owner_channelId c = id_c ch) (channelOwners s) = Some ow"
    and "findConnection s (remotePeer ow) = Some sock"
  shows "written (onRequestRebalance E now ch request tok s) =
           written s @
             [(sock,
               \<lparr>message = PayInvoice \<lparr>invoice = request, tokens = tok, channelId = id_c ch,
                                      paidTo = localPublicKey ch, paidBy = remotePublicKey ch\<rparr>,
                timestamp = now,
                signature = signMessage E (secret s) (Num now) (myPublicKey s)
                  (PayInvoice \<lparr>invoice = request, tokens = tok, channelId = id_c ch,
                               paidTo = localPublicKey ch, paidBy = remotePublicKey ch\<rparr>)\<rparr>)]"
  using assms
  by (simp add: onRequestRebalance_def sendMessage_def findConnection_def transactions_add_def)

lemma rebalanceChannel_sends:
  assumes free: "\<not> (\<exists>b \<in> set (blockedPending s). id_b b = id_c ch \<and> now < until b)"
    and invoice: "createInvoice E (toFixed0 a) = Some request"
    and owner: "find (\<lambda>c. owner_channelId c = id_c ch) (channelOwners s) = Some ow"
    and session: "findConnection s (remotePeer ow) = Some sock"
  shows "written (rebalanceChannel E now ch a s) =
           written s @
             [(sock,
               \<lparr>message = PayInvoice \<lparr>invoice = request, tokens = toFixed0 a, channelId = id_c ch,
                                      paidTo = localPublicKey ch, paidBy = remotePublicKey ch\<rparr>,
                timestamp = now,
                signature = signMessage E (secret s) (Num now) (myPublicKey s)
                  (PayInvoice \<lparr>invoice = request, tokens = toFixed0 a, channelId = id_c ch,
                               paidTo = localPublicKey ch, paidBy = remotePublicKey ch\<rparr>)\<rparr>)]"
proof -
  let ?s1 = "snd (rateLimitRebalance E now ch s)"
  have run: "rebalanceChannel E now ch a s = onRequestRebalance E now ch request (toFixed0 a) ?s1"
    using rebalanceChannel_free [OF rateLimitRebalance_not_blocked [OF free, of E], of a] invoice
    by simp
  have owner1: "find (\<lambda>c. owner_channelId c = id_c ch) (channelOwners ?s1) = Some ow"
    using owner by (simp add: rateLimitRebalance_frame)
  have session1: "findConnection ?s1 (remotePeer ow) = Some sock"
    using session by (simp add: findConnection_def rateLimitRebalance_frame)
  show ?thesis
    unfolding run
    using onRequestRebalance_sends [OF owner1 session1, of E now request "toFixed0 a"]
    by (simp add: rateLimitRebalance_written rateLimitRebalance_frame)
qed

lemma toFixed0_half_up: "0 \<le> x \<Longrightarrow> toFixed0 x = \<lfloor>x + 1 / 2\<rfloor>"
  by (simp add: toFixed0_def)

text \<open>
  Some doubles: 1/2 is one; 0.8, 0.1 and 1/3 are not; 0.8 - 0.1 on doubles is
  0.7000000000000001, above the double of 0.7; 2^53 + 1 is a tie and goes to the even
  neighbour 2^53.
\<close>

lemma double_examples:
  "double (1 / 2) = 1 / 2
   \<and> double (4 / 5) = 3602879701896397 / 2 ^ 52
   \<and> double (1 / 10) = 3602879701896397 / 2 ^ 55
   \<and> double (1 / 3) = 6004799503160661 / 2 ^ 54
   \<and> double (double (4 / 5) - double (1 / 10)) = 6305039478318695 / 2 ^ 53
   \<and> double (7 / 10) = 6305039478318694 / 2 ^ 53
   \<and> double 9007199254740993 = 9007199254740992
   \<and> double (- (4 / 5)) = - double (4 / 5)"
  by code_simp

text \<open>
  Claim C5, as amended. For a watched channel that is active and below the threshold, with
  \<open>amount = min ((localBalance + remoteBalance) * balancePoint - localBalance)
  maxTransactionSize\<close>: a negative amount leaves the node as it was. An amount of at least
  one half is asked for as \<open>floor (amount + 1/2)\<close> tokens, the nearest integer with a tie
  going up, which is at least one token and within one half of the amount: the tick writes
  nothing else than one \<^verbatim>\<open>payInvoice\<close> of that many tokens for the channel, and it does write
  it when the channel has no unexpired block, the invoice is created and the peer that
  owns the channel has a session.
\<close>

theorem onConsiderChannelRebalance_amount:
  assumes "find (\<lambda>c. id_c c = cid) (channels s) = Some ch"
    and "isActive ch"
    and "belowThreshold ch (rebalanceThreshold E cid)"
  shows "requestAmount E cid ch =
           min (of_int (localBalance ch + remoteBalance ch) * balancePoint E cid
                  - of_int (localBalance ch))
               (maxTransactionSize E cid)
         \<and> (requestAmount E cid ch < 0 \<longrightarrow> snd (onConsiderChannelRebalance E now cid s) = s)
         \<and> (1 / 2 \<le> requestAmount E cid ch \<longrightarrow>
              1 \<le> \<lfloor>requestAmount E cid ch + 1 / 2\<rfloor>
              \<and> \<bar>of_int \<lfloor>requestAmount E cid ch + 1 / 2\<rfloor> - requestAmount E cid ch\<bar> \<le> 1 / 2
              \<and> (written (snd (onConsiderChannelRebalance E now cid s)) = written s
                  \<or> (\<exists>sock request. written (snd (onConsiderChannelRebalance E now cid s)) =
                        written s @
                          [(sock,
                            \<lparr>message = PayInvoice
                               \<lparr>invoice = request, tokens = \<lfloor>requestAmount E cid ch + 1 / 2\<rfloor>,
                                channelId = cid, paidTo = localPublicKey ch,
                                paidBy = remotePublicKey ch\<rparr>,
                             timestamp = now,
                             signature = signMessage E (secret s) (Num now) (myPublicKey s)
                               (PayInvoice
                                 \<lparr>invoice = request, tokens = \<lfloor>requestAmount E cid ch + 1 / 2\<rfloor>,
                                  channelId = cid, paidTo = localPublicKey ch,
                                  paidBy = remotePublicKey ch\<rparr>)\<rparr>)]))
              \<and> (\<forall>request ow sock.
                    \<not> (\<exists>b \<in> set (blockedPending s). id_b b = cid \<and> now < until b)
                    \<and> createInvoice E \<lfloor>requestAmount E cid ch + 1 / 2\<rfloor> = Some request
                    \<and> find (\<lambda>c. owner_channelId c = cid) (channelOwners s) = Some ow
                    \<and> findConnection s (remotePeer ow) = Some sock
                    \<longrightarrow> written (snd (onConsiderChannelRebalance E now cid s)) =
                          written s @
                            [(sock,
                              \<lparr>message = PayInvoice
                                 \<lparr>invoice = request, tokens = \<lfloor>requestAmount E cid ch + 1 / 2\<rfloor>,
                                  channelId = cid, paidTo = localPublicKey ch,
                                  paidBy = remotePublicKey ch\<rparr>,
                               timestamp = now,
                               signature = signMessage E (secret s) (Num now) (myPublicKey s)
                                 (PayInvoice
                                   \<lparr>invoice = request, tokens = \<lfloor>requestAmount E cid ch + 1 / 2\<rfloor>,
                                    channelId = cid, paidTo = localPublicKey ch,
                                    paidBy = remotePublicKey ch\<rparr>)\<rparr>)]))"
proof -
  let ?a = "requestAmount E cid ch"
  have cid: "id_c ch = cid"
    using assms(1) by (rule find_channel_id)
  note tick = tick_out_of_balance [OF assms, of now]
  have formula: "?a =
           min (of_int (localBalance ch + remoteBalance ch) * balancePoint E cid
                  - of_int (localBalance ch))
               (maxTransactionSize E cid)"
    by (simp add: requestAmount_def Let_def)
  have negative: "?a < 0 \<longrightarrow> snd (onConsiderChannelRebalance E now cid s) = s"
    by (simp add: tick isPositive_def)
  have asked: "1 \<le> \<lfloor>?a + 1 / 2\<rfloor>
        \<and> \<bar>of_int \<lfloor>?a + 1 / 2\<rfloor> - ?a\<bar> \<le> 1 / 2
        \<and> (written (snd (onConsiderChannelRebalance E now cid s)) = written s
            \<or> (\<exists>sock request. written (snd (onConsiderChannelRebalance E now cid s)) =
                  written s @
                    [(sock,
                      \<lparr>message = PayInvoice
                         \<lparr>invoice = request, tokens = \<lfloor>?a + 1 / 2\<rfloor>,
                          channelId = cid, paidTo = localPublicKey ch,
                          paidBy = remotePublicKey ch\<rparr>,
                       timestamp = now,
                       signature = signMessage E (secret s) (Num now) (myPublicKey s)
                         (PayInvoice
                           \<lparr>invoice = request, tokens = \<lfloor>?a + 1 / 2\<rfloor>,
                            channelId = cid, paidTo = localPublicKey ch,
                            paidBy = remotePublicKey ch\<rparr>)\<rparr>)]))
        \<and> (\<forall>request ow sock.
              \<not> (\<exists>b \<in> set (blockedPending s). id_b b = cid \<and> now < until b)
              \<and> createInvoice E \<lfloor>?a + 1 / 2\<rfloor> = Some request
              \<and> find (\<lambda>c. owner_channelId c = cid) (channelOwners s) = Some ow
              \<and> findConnection s (remotePeer ow) = Some sock
              \<longrightarrow> written (snd (onConsiderChannelRebalance E now cid s)) =
                    written s @
                      [(sock,
                        \<lparr>message = PayInvoice
                           \<lparr>invoice = request, tokens = \<lfloor>?a + 1 / 2\<rfloor>,
                            channelId = cid, paidTo = localPublicKey ch,
                            paidBy = remotePublicKey ch\<rparr>,
                         timestamp = now,
                         signature = signMessage E (secret s) (Num now) (myPublicKey s)
                           (PayInvoice
                             \<lparr>invoice = request, tokens = \<lfloor>?a + 1 / 2\<rfloor>,
                              channelId = cid, paidTo = localPublicKey ch,
                              paidBy = remotePublicKey ch\<rparr>)\<rparr>)])"
    if big: "1 / 2 \<le> ?a"
  proof -
    from big have nonneg: "0 \<le> ?a"
      by simp
    then have tok: "toFixed0 ?a = \<lfloor>?a + 1 / 2\<rfloor>"
      by (rule toFixed0_half_up)
    from nonneg have run: "snd (onConsiderChannelRebalance E now cid s) = rebalanceChannel E now ch ?a s"
      by (simp add: tick isPositive_def)
    from big have "(1::rat) \<le> ?a + 1 / 2"
      by simp
    then have one: "1 \<le> \<lfloor>?a + 1 / 2\<rfloor>"
      by (simp add: le_floor_iff)
    have near: "\<bar>of_int \<lfloor>?a + 1 / 2\<rfloor> - ?a\<bar> \<le> 1 / 2"
      using toFixed0_nearest [of ?a] by (simp only: tok)
    have at_most: "written (snd (onConsiderChannelRebalance E now cid s)) = written s
            \<or> (\<exists>sock request. written (snd (onConsiderChannelRebalance E now cid s)) =
                  written s @
                    [(sock,
                      \<lparr>message = PayInvoice
                         \<lparr>invoice = request, tokens = \<lfloor>?a + 1 / 2\<rfloor>,
                          channelId = cid, paidTo = localPublicKey ch,
                          paidBy = remotePublicKey ch\<rparr>,
                       timestamp = now,
                       signature = signMessage E (secret s) (Num now) (myPublicKey s)
                         (PayInvoice
                           \<lparr>invoice = request, tokens = \<lfloor>?a + 1 / 2\<rfloor>,
                            channelId = cid, paidTo = localPublicKey ch,
                            paidBy = remotePublicKey ch\<rparr>)\<rparr>)])"
      using rebalanceChannel_written [of E now ch ?a s]
      by (simp only: run tok cid)
    have sends: "written (snd (onConsiderChannelRebalance E now cid s)) =
                    written s @
                      [(sock,
                        \<lparr>message = PayInvoice
                           \<lparr>invoice = request, tokens = \<lfloor>?a + 1 / 2\<rfloor>,
                            channelId = cid, paidTo = localPublicKey ch,
                            paidBy = remotePublicKey ch\<rparr>,
                         timestamp = now,
                         signature = signMessage E (secret s) (Num now) (myPublicKey s)
                           (PayInvoice
                             \<lparr>invoice = request, tokens = \<lfloor>?a + 1 / 2\<rfloor>,
                              channelId = cid, paidTo = localPublicKey ch,
                              paidBy = remotePublicKey ch\<rparr>)\<rparr>)]"
      if free: "\<not> (\<exists>b \<in> set (blockedPending s). id_b b = cid \<and> now < until b)"
        and invoice: "createInvoice E \<lfloor>?a + 1 / 2\<rfloor> = Some request"
        and owner: "find (\<lambda>c. owner_channelId c = cid) (channelOwners s) = Some ow"
        and session: "findConnection s (remotePeer ow) = Some sock"
      for request ow sock
      using rebalanceChannel_sends [of s ch now E ?a request ow sock] free invoice owner session
      by (simp only: run tok cid simp_thms)
    from one near at_most sends show ?thesis
      by blast
  qed
  from formula negative asked show ?thesis
    by blast
qed

lemma below_chanA: "belowThreshold chanA (rebalanceThreshold envA ''C1'')"
  by code_simp

lemma below_chanA_low: "belowThreshold chanA_low (rebalanceThreshold envA ''C1'')"
  by code_simp

lemma below_chanA_even: "belowThreshold chanA_even (rebalanceThreshold envA ''C1'')"
  by code_simp

lemma tick_nodeA:
  "onConsiderChannelRebalance envA 1000 ''C1'' nodeA =
     (True,
      nodeA\<lparr>blockedPending := [\<lparr>id_b = ''C1'', until = 61000\<rparr>],
            transactions :=
              [\<lparr>tx_paidTo = ''lnA'', tx_paidBy = ''lnB'', tx_channelId = ''C1'', amount = 401,
                tx_invoice = ''inv1'', state = ''pending'', tx_timestamp = 1000\<rparr>],
            written :=
              [(7, \<lparr>message = PayInvoice \<lparr>invoice = ''inv1'', tokens = 401, channelId = ''C1'',
                                           paidTo = ''lnA'', paidBy = ''lnB''\<rparr>,
                    timestamp = 1000, signature = ''s/meshA/payInvoice''\<rparr>)]\<rparr>)"
proof -
  have found: "find (\<lambda>c. id_c c = ''C1'') (channels nodeA) = Some chanA"
    by (simp add: nodeA_def chanA_def)
  have active: "isActive chanA"
    by (simp add: chanA_def)
  show ?thesis
    unfolding tick_out_of_balance [OF found active below_chanA] requestAmount_chanA
    by (simp add: isPositive_def rebalance_nodeA)
qed

text \<open>
  At node A the channel is below the threshold and the amount is 801/2: with no block, the
  invoice created and the session of its owner \<open>meshB\<close> on socket 7, the tick writes the
  \<^verbatim>\<open>payInvoice\<close> of 401 tokens. At the node with the empty far side the amount is -50 and the
  tick changes nothing.
\<close>

theorem onConsiderChannelRebalance_amount_witness:
  "find (\<lambda>c. id_c c = ''C1'') (channels nodeA) = Some chanA
   \<and> isActive chanA
   \<and> belowThreshold chanA (rebalanceThreshold envA ''C1'')
   \<and> requestAmount envA ''C1'' chanA = 801 / 2
   \<and> blockedPending nodeA = []
   \<and> createInvoice envA 401 = Some ''inv1''
   \<and> find (\<lambda>c. owner_channelId c = ''C1'') (channelOwners nodeA) =
       Some \<lparr>owner_channelId = ''C1'', remotePeer = ''meshB'', remoteLightning = ''lnB''\<rparr>
   \<and> findConnection nodeA ''meshB'' = Some 7
   \<and> written nodeA = []
   \<and> written (snd (onConsiderChannelRebalance envA 1000 ''C1'' nodeA)) =
       [(7, \<lparr>message = PayInvoice \<lparr>invoice = ''inv1'', tokens = 401, channelId = ''C1'',
                                    paidTo = ''lnA'', paidBy = ''lnB''\<rparr>,
             timestamp = 1000, signature = ''s/meshA/payInvoice''\<rparr>)]
   \<and> find (\<lambda>c. id_c c = ''C1'') (channels nodeA_low) = Some chanA_low
   \<and> isActive chanA_low
   \<and> belowThreshold chanA_low (rebalanceThreshold envA ''C1'')
   \<and> requestAmount envA ''C1'' chanA_low = - 50
   \<and> snd (onConsiderChannelRebalance envA 1000 ''C1'' nodeA_low) = nodeA_low"
proof -
  let ?owner = "\<lparr>owner_channelId = ''C1'', remotePeer = ''meshB'', remoteLightning = ''lnB''\<rparr>"
  have found: "find (\<lambda>c. id_c c = ''C1'') (channels nodeA) = Some chanA"
    by (simp add: nodeA_def chanA_def)
  have active: "isActive chanA"
    by (simp add: chanA_def)
  have big: "1 / 2 \<le> requestAmount envA ''C1'' chanA"
    by (simp add: requestAmount_chanA)
  have tokens: "\<lfloor>requestAmount envA ''C1'' chanA + 1 / 2\<rfloor> = 401"
    by (simp add: requestAmount_chanA floor_eq_iff)
  have free: "blockedPending nodeA = []"
    by (simp add: nodeA_def)
  have invoice: "createInvoice envA 401 = Some ''inv1''"
    by (simp add: envA_def invoice0_def)
  have owner: "find (\<lambda>c. owner_channelId c = ''C1'') (channelOwners nodeA) = Some ?owner"
    by (simp add: nodeA_def)
  have session: "findConnection nodeA ''meshB'' = Some 7"
    by (simp add: nodeA_def findConnection_def)
  have session': "findConnection nodeA (remotePeer ?owner) = Some 7"
    using session by simp
  have unwritten: "written nodeA = []"
    by (simp add: nodeA_def)
  have conds: "\<not> (\<exists>b \<in> set (blockedPending nodeA). id_b b = ''C1'' \<and> 1000 < until b)
      \<and> createInvoice envA \<lfloor>requestAmount envA ''C1'' chanA + 1 / 2\<rfloor> = Some ''inv1''
      \<and> find (\<lambda>c. owner_channelId c = ''C1'') (channelOwners nodeA) = Some ?owner
      \<and> findConnection nodeA (remotePeer ?owner) = Some 7"
    using invoice owner session' by (simp add: free tokens)
  note at_A = onConsiderChannelRebalance_amount [OF found active below_chanA, of 1000]
  have "written (snd (onConsiderChannelRebalance envA 1000 ''C1'' nodeA)) =
          written nodeA @
            [(7,
              \<lparr>message = PayInvoice
                 \<lparr>invoice = ''inv1'', tokens = \<lfloor>requestAmount envA ''C1'' chanA + 1 / 2\<rfloor>,
                  channelId = ''C1'', paidTo = localPublicKey chanA,
                  paidBy = remotePublicKey chanA\<rparr>,
               timestamp = 1000,
               signature = signMessage envA (secret nodeA) (Num 1000) (myPublicKey nodeA)
                 (PayInvoice
                   \<lparr>invoice = ''inv1'', tokens = \<lfloor>requestAmount envA ''C1'' chanA + 1 / 2\<rfloor>,
                    channelId = ''C1'', paidTo = localPublicKey chanA,
                    paidBy = remotePublicKey chanA\<rparr>)\<rparr>)]"
    by (rule at_A [THEN conjunct2, THEN conjunct2, THEN mp, OF big,
          THEN conjunct2, THEN conjunct2, THEN conjunct2,
          THEN spec, THEN spec, THEN spec, THEN mp, OF conds])
  then have sent: "written (snd (onConsiderChannelRebalance envA 1000 ''C1'' nodeA)) =
       [(7, \<lparr>message = PayInvoice \<lparr>invoice = ''inv1'', tokens = 401, channelId = ''C1'',
                                    paidTo = ''lnA'', paidBy = ''lnB''\<rparr>,
             timestamp = 1000, signature = ''s/meshA/payInvoice''\<rparr>)]"
    by (simp add: tokens unwritten) (simp add: chanA_def envA_def nodeA_def sign0_def)
  have found_low: "find (\<lambda>c. id_c c = ''C1'') (channels nodeA_low) = Some chanA_low"
    by (simp add: nodeA_low_def chanA_low_def nodeA_def chanA_def)
  have active_low: "isActive chanA_low"
    by (simp add: chanA_low_def chanA_def)
  have amount_low: "requestAmount envA ''C1'' chanA_low = - 50"
    by (simp add: requestAmount_def chanA_low_def chanA_def envA_def half_def cap0_def Let_def)
  then have negative: "requestAmount envA ''C1'' chanA_low < 0"
    by simp
  have unchanged: "snd (onConsiderChannelRebalance envA 1000 ''C1'' nodeA_low) = nodeA_low"
    by (rule onConsiderChannelRebalance_amount [OF found_low active_low below_chanA_low, of 1000,
          THEN conjunct2, THEN conjunct1, THEN mp, OF negative])
  from found active below_chanA requestAmount_chanA free invoice owner session unwritten sent
    found_low active_low below_chanA_low amount_low unchanged
  show ?thesis
    by (intro conjI)
qed

text \<open>
  Claim C5 as stated fails at node A: the channel is active and below the threshold, the
  amount is 801/2, which rounded down is 400, and the \<^verbatim>\<open>payInvoice\<close> written asks for 401
  tokens.
\<close>

theorem tick_rounds_half_up:
  "channels nodeA = [chanA]
   \<and> isActive chanA
   \<and> belowThreshold chanA (rebalanceThreshold envA ''C1'')
   \<and> requestAmount envA ''C1'' chanA = 801 / 2
   \<and> \<lfloor>requestAmount envA ''C1'' chanA\<rfloor> = 400
   \<and> written (snd (onConsiderChannelRebalance envA 1000 ''C1'' nodeA)) =
       [(7, \<lparr>message = PayInvoice \<lparr>invoice = ''inv1'', tokens = 401, channelId = ''C1'',
                                    paidTo = ''lnA'', paidBy = ''lnB''\<rparr>,
             timestamp = 1000, signature = ''s/meshA/payInvoice''\<rparr>)]"
proof -
  have "channels nodeA = [chanA]"
    by (simp add: nodeA_def)
  moreover have "isActive chanA"
    by (simp add: chanA_def)
  moreover have "\<lfloor>requestAmount envA ''C1'' chanA\<rfloor> = 400"
    by (simp add: requestAmount_chanA floor_eq_iff)
  moreover have "written (snd (onConsiderChannelRebalance envA 1000 ''C1'' nodeA)) =
       [(7, \<lparr>message = PayInvoice \<lparr>invoice = ''inv1'', tokens = 401, channelId = ''C1'',
                                    paidTo = ''lnA'', paidBy = ''lnB''\<rparr>,
             timestamp = 1000, signature = ''s/meshA/payInvoice''\<rparr>)]"
    by (simp add: tick_nodeA)
  ultimately show ?thesis
    using requestAmount_chanA below_chanA by (intro conjI)
qed

text \<open>
  The amount zero passes \<^verbatim>\<open>isPositive\<close>: at the node with 100 on either side the tick asks
  for an invoice of 0 tokens.
\<close>

lemma tick_asks_for_zero:
  "requestAmount envA ''C1'' chanA_even = 0
   \<and> written (snd (onConsiderChannelRebalance envA 1000 ''C1'' nodeA_even)) =
       [(7, \<lparr>message = PayInvoice \<lparr>invoice = ''inv1'', tokens = 0, channelId = ''C1'',
                                    paidTo = ''lnA'', paidBy = ''lnB''\<rparr>,
             timestamp = 1000, signature = ''s/meshA/payInvoice''\<rparr>)]"
proof -
  have found: "find (\<lambda>c. id_c c = ''C1'') (channels nodeA_even) = Some chanA_even"
    by (simp add: nodeA_even_def chanA_even_def nodeA_def chanA_def)
  have active: "isActive chanA_even"
    by (simp add: chanA_even_def chanA_def)
  have zero: "requestAmount envA ''C1'' chanA_even = 0"
    by (simp add: requestAmount_def chanA_even_def chanA_def envA_def half_def cap0_def Let_def)
  have "written (rebalanceChannel envA 1000 chanA_even 0 nodeA_even) =
       [(7, \<lparr>message = PayInvoice \<lparr>invoice = ''inv1'', tokens = 0, channelId = ''C1'',
                                    paidTo = ''lnA'', paidBy = ''lnB''\<rparr>,
             timestamp = 1000, signature = ''s/meshA/payInvoice''\<rparr>)]"
    by (simp add: nodeA_even_def chanA_even_def nodeA_def chanA_def envA_def minute_def
        invoice0_def sign0_def toFixed0_def rebalanceChannel_def
        rateLimitRebalance_def onRequestRebalance_def sendMessage_def findConnection_def
        transactions_add_def Let_def floor_eq_iff)
  then show ?thesis
    unfolding tick_out_of_balance [OF found active below_chanA_even] zero
    by (simp add: isPositive_def)
qed

text \<open>
  The threshold test is made on doubles. With a balance point of 0.8 and a dead zone of
  0.1 the threshold is the double 0.7000000000000001, and a channel that is local to
  exactly 7/10, which as a double is 0.6999999999999999..., is below it, although 7/10 is
  not less than 8/10 - 1/10.
\<close>

lemma threshold_in_doubles:
  "\<not> ((7::rat) / 10 < 4 / 5 - 1 / 10)
   \<and> rebalanceThreshold envA_edge ''C1'' = 6305039478318695 / 9007199254740992
   \<and> double (div20 (localBalance chan_edge) (capacity chan_edge))
       = 3152519739159347 / 4503599627370496
   \<and> belowThreshold chan_edge (rebalanceThreshold envA_edge ''C1'')"
  by code_simp

end
